theory Spec2Isabelle
  imports Main "HOL-Library.Word"
begin

section \<open>Python values, exceptions and strings\<close>

text \<open>
  The program is \<^verbatim>\<open>pgr2bq.py\<close>. A Python \<^verbatim>\<open>str\<close> is modelled as a \<open>string\<close>
  whose characters are the code points below 256. Exceptions are values of \<open>error\<close>;
  a computation that can raise returns \<open>error + 'a\<close> with the exception on the left.
\<close>

datatype error =
  TypeError | ValueError | KeyError | StopIteration | CsvError | NameError | OSError

text \<open>
  What the row reader hands to a converter: a field text, \<^verbatim>\<open>None\<close> (the reader's
  \<^verbatim>\<open>restval\<close>) or a list of field texts (the surplus of a long row).
\<close>

datatype raw = RNone | RStr string | RList "string list"

text \<open>What a converter returns; a float is its IEEE-754 binary64 bit pattern.\<close>

datatype pyval = VNone | VStr string | VInt int | VFloat "64 word"

text \<open>
  A record of the output is a dictionary from column names to values; the key \<^verbatim>\<open>None\<close>
  is the reader's \<^verbatim>\<open>restkey\<close>.
\<close>

type_synonym pyrecord = "(string option \<times> pyval) list"

definition sq :: char where
  "sq = CHR 0x27"

definition nl :: char where
  "nl = CHR 0x0A"

definition py_isspace :: "char \<Rightarrow> bool" where
  \<comment> \<open>\<^verbatim>\<open>str.isspace\<close> on one code point below 256\<close>
  "py_isspace c =
     (let n = (of_char c :: nat)
      in (9 \<le> n \<and> n \<le> 13) \<or> (28 \<le> n \<and> n \<le> 32) \<or> n = 133 \<or> n = 160)"

definition py_lower :: "char \<Rightarrow> char" where
  \<comment> \<open>\<^verbatim>\<open>str.lower\<close> on one code point below 256\<close>
  "py_lower c =
     (let n = (of_char c :: nat)
      in if (65 \<le> n \<and> n \<le> 90) \<or> (192 \<le> n \<and> n \<le> 222 \<and> n \<noteq> 215)
         then char_of (n + 32) else c)"

definition str_lower :: "string \<Rightarrow> string" where
  "str_lower s = map py_lower s"

definition str_startswith :: "string \<Rightarrow> string \<Rightarrow> bool" where
  "str_startswith s p = (take (length p) s = p)"

definition str_strip :: "string \<Rightarrow> string" where
  "str_strip s = rev (dropWhile py_isspace (rev (dropWhile py_isspace s)))"

fun str_split :: "char \<Rightarrow> string \<Rightarrow> string list" where
  "str_split sep [] = [[]]"
| "str_split sep (c # cs) =
     (if c = sep then [] # str_split sep cs
      else (case str_split sep cs of [] \<Rightarrow> [[c]] | w # ws \<Rightarrow> (c # w) # ws))"

definition str_partition :: "char \<Rightarrow> string \<Rightarrow> string \<times> string \<times> string" where
  \<comment> \<open>\<^verbatim>\<open>s.partition(sep)\<close> for a separator of one character\<close>
  "str_partition sep s =
     (let before = takeWhile (\<lambda>c. c \<noteq> sep) s; rest = dropWhile (\<lambda>c. c \<noteq> sep) s
      in (before, take 1 rest, drop 1 rest))"

definition str_rpartition :: "char \<Rightarrow> string \<Rightarrow> string \<times> string \<times> string" where
  \<comment> \<open>\<^verbatim>\<open>s.rpartition(sep)\<close> for a separator of one character\<close>
  "str_rpartition sep s =
     (if sep \<in> set s
      then (rev (drop 1 (dropWhile (\<lambda>c. c \<noteq> sep) (rev s))), [sep],
            rev (takeWhile (\<lambda>c. c \<noteq> sep) (rev s)))
      else ([], [], s))"

fun str_join :: "string \<Rightarrow> string list \<Rightarrow> string" where
  "str_join sep [] = []"
| "str_join sep [x] = x"
| "str_join sep (x # y # ys) = x @ sep @ str_join sep (y # ys)"

section \<open>Insertion-ordered dictionaries\<close>

text \<open>
  \<^verbatim>\<open>dict\<close> and \<^verbatim>\<open>OrderedDict\<close> keep keys in order of first insertion; assigning to
  a key that is present replaces its value where it stands.
\<close>

fun od_set :: "'k \<Rightarrow> 'v \<Rightarrow> ('k \<times> 'v) list \<Rightarrow> ('k \<times> 'v) list" where
  "od_set k v [] = [(k, v)]"
| "od_set k v ((k', v') # d) = (if k' = k then (k, v) # d else (k', v') # od_set k v d)"

fun od_update :: "('k \<times> 'v) list \<Rightarrow> ('k \<times> 'v) list \<Rightarrow> ('k \<times> 'v) list" where
  \<comment> \<open>\<^verbatim>\<open>d.update(items)\<close>, also \<^verbatim>\<open>OrderedDict(items)\<close> from the empty dictionary\<close>
  "od_update d [] = d"
| "od_update d ((k, v) # kvs) = od_update (od_set k v d) kvs"

definition od_get :: "('k \<times> 'v) list \<Rightarrow> 'k \<Rightarrow> 'v \<Rightarrow> 'v" where
  \<comment> \<open>\<^verbatim>\<open>d.get(k, default)\<close>\<close>
  "od_get d k dflt = (case map_of d k of None \<Rightarrow> dflt | Some v \<Rightarrow> v)"

definition od_pop :: "'k \<Rightarrow> ('k \<times> 'v) list \<Rightarrow> error + ('v \<times> ('k \<times> 'v) list)" where
  \<comment> \<open>\<^verbatim>\<open>d.pop(k)\<close> with no default: a missing key raises \<^verbatim>\<open>KeyError\<close>\<close>
  "od_pop k d =
     (case map_of d k of
        None \<Rightarrow> Inl KeyError
      | Some v \<Rightarrow> Inr (v, filter (\<lambda>kv. fst kv \<noteq> k) d))"

section \<open>Builtin converters\<close>

text \<open>
  \<^verbatim>\<open>int(s)\<close> in base 10: surrounding whitespace, an optional sign, then digits with
  single underscores between them; more than 4300 digits are refused (the default of
  \<^verbatim>\<open>sys.get_int_max_str_digits()\<close>).
\<close>

definition is_digit :: "char \<Rightarrow> bool" where
  "is_digit c = (let n = (of_char c :: nat) in 48 \<le> n \<and> n \<le> 57)"

definition digit_val :: "char \<Rightarrow> nat" where
  "digit_val c = of_char c - 48"

definition int_space :: "char \<Rightarrow> bool" where
  "int_space c =
     (let n = (of_char c :: nat) in (9 \<le> n \<and> n \<le> 13) \<or> n = 32 \<or> n = 133 \<or> n = 160)"

fun int_digits :: "bool \<Rightarrow> nat \<Rightarrow> string \<Rightarrow> nat option" where
  "int_digits prev acc [] = (if prev then Some acc else None)"
| "int_digits prev acc (c # cs) =
     (if is_digit c then int_digits True (10 * acc + digit_val c) cs
      else if c = CHR ''_'' \<and> prev then int_digits False acc cs
      else None)"

definition int_max_str_digits :: nat where
  "int_max_str_digits = 4300"

definition int_of_str :: "string \<Rightarrow> error + int" where
  "int_of_str s =
     (let t = rev (dropWhile int_space (rev (dropWhile int_space s)));
          (sign, body) = (case t of
                            c # r \<Rightarrow> if c = CHR ''-'' then (- 1, r)
                                     else if c = CHR ''+'' then (1, r) else (1, t)
                          | [] \<Rightarrow> (1, t))
      in if int_max_str_digits < length (filter is_digit body) then Inl ValueError
         else (case int_digits False 0 body of
                 None \<Rightarrow> Inl ValueError
               | Some n \<Rightarrow> Inr (sign * int n)))"

text \<open>\<^verbatim>\<open>str(xs)\<close> of a list of strings is the list of their \<^verbatim>\<open>repr\<close>s.\<close>

definition py_isprintable :: "char \<Rightarrow> bool" where
  "py_isprintable c =
     (let n = (of_char c :: nat) in \<not> (n < 32 \<or> (127 \<le> n \<and> n \<le> 160) \<or> n = 173))"

definition hex_digit :: "nat \<Rightarrow> char" where
  "hex_digit n = (if n < 10 then char_of (48 + n) else char_of (87 + n))"

definition repr_char :: "char \<Rightarrow> char \<Rightarrow> string" where
  "repr_char q c =
     (if c = q \<or> c = CHR 0x5C then [CHR 0x5C, c]
      else if c = CHR 0x09 then [CHR 0x5C, CHR ''t'']
      else if c = CHR 0x0A then [CHR 0x5C, CHR ''n'']
      else if c = CHR 0x0D then [CHR 0x5C, CHR ''r'']
      else if \<not> py_isprintable c
        then [CHR 0x5C, CHR ''x'', hex_digit (of_char c div 16), hex_digit (of_char c mod 16)]
      else [c])"

definition str_repr :: "string \<Rightarrow> string" where
  "str_repr s =
     (let q = (if sq \<in> set s \<and> CHR 0x22 \<notin> set s then CHR 0x22 else sq)
      in [q] @ concat (map (repr_char q) s) @ [q])"

definition list_repr :: "string list \<Rightarrow> string" where
  "list_repr xs = ''['' @ str_join '', '' (map str_repr xs) @ '']''"

text \<open>
  \<^verbatim>\<open>bytes.fromhex(s)\<close>: pairs of hexadecimal digits, ASCII whitespace allowed between
  pairs only.
\<close>

definition hex_val :: "char \<Rightarrow> nat option" where
  "hex_val c =
     (let n = (of_char c :: nat)
      in if 48 \<le> n \<and> n \<le> 57 then Some (n - 48)
         else if 97 \<le> n \<and> n \<le> 102 then Some (n - 87)
         else if 65 \<le> n \<and> n \<le> 70 then Some (n - 55)
         else None)"

definition ascii_space :: "char \<Rightarrow> bool" where
  "ascii_space c = (let n = (of_char c :: nat) in (9 \<le> n \<and> n \<le> 13) \<or> n = 32)"

fun bytes_fromhex :: "string \<Rightarrow> error + 8 word list" where
  "bytes_fromhex [] = Inr []"
| "bytes_fromhex [c] = (if ascii_space c then Inr [] else Inl ValueError)"
| "bytes_fromhex (c # d # cs) =
     (if ascii_space c then bytes_fromhex (d # cs)
      else (case (hex_val c, hex_val d) of
              (Some h, Some l) \<Rightarrow>
                (case bytes_fromhex cs of
                   Inl e \<Rightarrow> Inl e
                 | Inr bs \<Rightarrow> Inr (of_nat (16 * h + l) # bs))
            | _ \<Rightarrow> Inl ValueError))"

text \<open>
  The decoded geometry of \<^verbatim>\<open>geomet\<close> is a dictionary of JSON-like values; an Avro
  schema is a value of the same kind. The float parser, the two geometry codecs, the
  opening of a file for writing and the serializers of \<^verbatim>\<open>csv\<close>, \<^verbatim>\<open>json\<close> and
  \<^verbatim>\<open>fastavro\<close> are libraries whose algorithms are outside this development; the program
  is modelled over any implementation of them. A serializer that raises has written
  something before: it returns what it wrote and the exception, if any.
\<close>

datatype gval =
    GStr string
  | GInt int
  | GFloat "64 word"
  | GList "gval list"
  | GDict "(string \<times> gval) list"

type_synonym geom = "(string \<times> gval) list"

record builtins =
  float_of_str :: "string \<Rightarrow> error + 64 word"
  wkb_loads :: "8 word list \<Rightarrow> error + geom"
  wkt_dumps :: "geom \<Rightarrow> error + string"
  open_write :: "string \<Rightarrow> error option"
  DictWriter_writeheader :: "string list \<Rightarrow> string \<times> error option"
  DictWriter_writerows :: "string list \<Rightarrow> pyrecord list \<Rightarrow> string \<times> error option"
  json_dumps :: "pyrecord \<Rightarrow> error + string"
  parse_schema :: "gval \<Rightarrow> error + gval"
  fastavro_writer :: "gval \<Rightarrow> pyrecord list \<Rightarrow> 8 word list \<times> error option"

definition py_int :: "raw \<Rightarrow> error + pyval" where
  \<comment> \<open>the builtin \<^verbatim>\<open>int\<close>\<close>
  "py_int v =
     (case v of
        RStr s \<Rightarrow> (case int_of_str s of Inl e \<Rightarrow> Inl e | Inr i \<Rightarrow> Inr (VInt i))
      | _ \<Rightarrow> Inl TypeError)"

definition py_float :: "builtins \<Rightarrow> raw \<Rightarrow> error + pyval" where
  \<comment> \<open>the builtin \<^verbatim>\<open>float\<close>\<close>
  "py_float B v =
     (case v of
        RStr s \<Rightarrow> (case float_of_str B s of Inl e \<Rightarrow> Inl e | Inr x \<Rightarrow> Inr (VFloat x))
      | _ \<Rightarrow> Inl TypeError)"

definition py_str :: "raw \<Rightarrow> error + pyval" where
  \<comment> \<open>the builtin \<^verbatim>\<open>str\<close>\<close>
  "py_str v =
     (case v of
        RStr s \<Rightarrow> Inr (VStr s)
      | RNone \<Rightarrow> Inr (VStr ''None'')
      | RList xs \<Rightarrow> Inr (VStr (list_repr xs)))"

section \<open>Geometry decoder\<close>

definition convert_wkb_to_wkt :: "builtins \<Rightarrow> bool \<Rightarrow> raw \<Rightarrow> error + pyval" where
  "convert_wkb_to_wkt B strip_srid wkb_hex_value =
     (case wkb_hex_value of
        RStr s \<Rightarrow>
          (case bytes_fromhex s of
             Inl e \<Rightarrow> Inl e
           | Inr bs \<Rightarrow>
               (case wkb_loads B bs of
                  Inl e \<Rightarrow> Inl e
                | Inr geom \<Rightarrow>
                    (case (if strip_srid
                           then (case od_pop ''meta'' geom of
                                   Inl e \<Rightarrow> Inl e
                                 | Inr (_, g1) \<Rightarrow>
                                     (case od_pop ''crs'' g1 of
                                        Inl e \<Rightarrow> Inl e
                                      | Inr (_, g2) \<Rightarrow> Inr g2))
                           else Inr geom) of
                       Inl e \<Rightarrow> Inl e
                     | Inr g \<Rightarrow>
                         (case wkt_dumps B g of
                            Inl e \<Rightarrow> Inl e
                          | Inr t \<Rightarrow> Inr (VStr t)))))
      | _ \<Rightarrow> Inl TypeError)"

section \<open>FieldType\<close>

record FieldType =
  type_converter :: "raw \<Rightarrow> error + pyval"
  avro_data_type :: string
  null_value :: raw

definition FieldType_init :: "(raw \<Rightarrow> error + pyval) \<Rightarrow> string \<Rightarrow> FieldType" where
  \<comment> \<open>\<^verbatim>\<open>FieldType(type_converter, avro_data_type)\<close> with the default \<^verbatim>\<open>null_value="null"\<close>\<close>
  "FieldType_init conv avro =
     \<lparr>type_converter = conv, avro_data_type = avro, null_value = RStr ''null''\<rparr>"

definition FieldType_call :: "FieldType \<Rightarrow> raw \<Rightarrow> error + pyval" where
  "FieldType_call ft v = (if v = null_value ft then Inr VNone else type_converter ft v)"

definition avro_type :: "FieldType \<Rightarrow> gval" where
  "avro_type ft = GList [GStr ''null'', GStr (avro_data_type ft)]"

section \<open>Regular expressions of the program\<close>

text \<open>
  The three patterns are matched by \<^verbatim>\<open>re.search\<close> with a leading \<^verbatim>\<open>^\<close>, so a match
  starts at the first character. Each pattern is written with the combinators below in
  continuation style: the matcher of an element takes the matcher of the rest of the
  pattern and the text that is left, and backtracks in the regex engine's order.
\<close>

definition re_dot :: "char \<Rightarrow> bool" where
  \<comment> \<open>\<^verbatim>\<open>.\<close> matches anything but a newline\<close>
  "re_dot c = (c \<noteq> nl)"

definition re_sep :: "char \<Rightarrow> bool" where
  \<comment> \<open>\<^verbatim>\<open>[;,]\<close>\<close>
  "re_sep c = (c = CHR '';'' \<or> c = CHR '','')"

fun re_lit :: "string \<Rightarrow> (string \<Rightarrow> 'a option) \<Rightarrow> string \<Rightarrow> 'a option" where
  \<comment> \<open>a literal text\<close>
  "re_lit [] k inp = k inp"
| "re_lit (p # ps) k [] = None"
| "re_lit (p # ps) k (c # cs) = (if c = p then re_lit ps k cs else None)"

fun re_lit_ci :: "string \<Rightarrow> (string \<Rightarrow> 'a option) \<Rightarrow> string \<Rightarrow> 'a option" where
  \<comment> \<open>a literal text under \<^verbatim>\<open>re.IGNORECASE\<close>\<close>
  "re_lit_ci [] k inp = k inp"
| "re_lit_ci (p # ps) k [] = None"
| "re_lit_ci (p # ps) k (c # cs) =
     (if py_lower c = py_lower p then re_lit_ci ps k cs else None)"

fun re_lazy_plus ::
  "(char \<Rightarrow> bool) \<Rightarrow> (string \<Rightarrow> string \<Rightarrow> 'a option) \<Rightarrow> string \<Rightarrow> string \<Rightarrow> 'a option" where
  \<comment> \<open>a capturing group \<^verbatim>\<open>(X+?)\<close>: the shortest text first, one more character on failure\<close>
  "re_lazy_plus p k acc [] = None"
| "re_lazy_plus p k acc (c # cs) =
     (if p c
      then (case k (acc @ [c]) cs of
              Some r \<Rightarrow> Some r
            | None \<Rightarrow> re_lazy_plus p k (acc @ [c]) cs)
      else None)"

fun re_opt :: "(char \<Rightarrow> bool) \<Rightarrow> (string \<Rightarrow> 'a option) \<Rightarrow> string \<Rightarrow> 'a option" where
  \<comment> \<open>\<^verbatim>\<open>X?\<close>, greedy: with the character first, without it on failure\<close>
  "re_opt p k [] = k []"
| "re_opt p k (c # cs) =
     (if p c then (case k cs of Some r \<Rightarrow> Some r | None \<Rightarrow> k (c # cs)) else k (c # cs))"

definition re_end :: "'a \<Rightarrow> string \<Rightarrow> 'a option" where
  \<comment> \<open>\<^verbatim>\<open>$\<close>: the end of the text, or just before a newline that ends it\<close>
  "re_end r inp = (if inp = [] \<or> inp = [nl] then Some r else None)"

definition create_table_re :: "string \<Rightarrow> (string \<times> string) option" where
  \<comment> \<open>\<^verbatim>\<open>^CREATE TABLE (?P<table_name>.+?)\((?P<fields>.+?)\)[;,]?$\<close>\<close>
  "create_table_re ddl =
     re_lit ''CREATE TABLE ''
       (re_lazy_plus re_dot (\<lambda>table_name.
          re_lit ''(''
            (re_lazy_plus re_dot (\<lambda>text_fields.
               re_lit '')'' (re_opt re_sep (re_end (table_name, text_fields)))) [])) [])
       ddl"

definition geometry_column_re :: "string \<Rightarrow> (string \<times> string \<times> string \<times> string \<times> string) option" where
  \<comment> \<open>\<^verbatim>\<open>^SELECT AddGeometryColumn\('(?P<table_name>.+?)', '(?P<column_name>.+?)', (?P<srid>\d+?), '(?P<type>.+?)', (?P<dimension>\d+?)\);$\<close>
      with \<^verbatim>\<open>re.IGNORECASE\<close>\<close>
  "geometry_column_re ddl =
     re_lit_ci (''SELECT AddGeometryColumn('' @ [sq])
       (re_lazy_plus re_dot (\<lambda>table_name.
          re_lit_ci ([sq] @ '', '' @ [sq])
            (re_lazy_plus re_dot (\<lambda>column_name.
               re_lit_ci ([sq] @ '', '')
                 (re_lazy_plus is_digit (\<lambda>srid.
                    re_lit_ci ('', '' @ [sq])
                      (re_lazy_plus re_dot (\<lambda>type.
                         re_lit_ci ([sq] @ '', '')
                           (re_lazy_plus is_digit (\<lambda>dimension.
                              re_lit_ci '');''
                                (re_end (table_name, column_name, srid, type, dimension)))
                            [])) [])) [])) [])) [])
       ddl"

definition insert_line_re :: "string \<Rightarrow> string option" where
  \<comment> \<open>\<^verbatim>\<open>^\((?P<values>.+?)\)[;,]?$\<close>\<close>
  "insert_line_re line =
     re_lit ''(''
       (re_lazy_plus re_dot (\<lambda>values.
          re_lit '')'' (re_opt re_sep (re_end values))) [])
       line"

section \<open>TableSchema\<close>

record TableSchema =
  ts_name :: "string option"
  ts_fields :: "(string \<times> FieldType) list"

definition SQL_TABLE_TYPE_MAPPING :: "builtins \<Rightarrow> (string \<times> FieldType) list" where
  "SQL_TABLE_TYPE_MAPPING B =
     [(''integer'', FieldType_init py_int ''int''),
      (''bigint'', FieldType_init py_int ''long''),
      (''character varying'', FieldType_init py_str ''string''),
      (''double precision'', FieldType_init (py_float B) ''double'')]"

definition TableSchema_init :: TableSchema where
  \<comment> \<open>\<^verbatim>\<open>TableSchema()\<close>\<close>
  "TableSchema_init = \<lparr>ts_name = None, ts_fields = []\<rparr>"

definition keys :: "TableSchema \<Rightarrow> string list" where
  "keys ts = map fst (ts_fields ts)"

definition get_converter :: "TableSchema \<Rightarrow> string option \<Rightarrow> raw \<Rightarrow> error + pyval" where
  \<comment> \<open>\<^verbatim>\<open>self._fields.get(field, str)\<close>, then called; the key \<^verbatim>\<open>None\<close> is never a column\<close>
  "get_converter ts field =
     (case field of
        None \<Rightarrow> py_str
      | Some k \<Rightarrow> (case map_of (ts_fields ts) k of None \<Rightarrow> py_str | Some ft \<Rightarrow> FieldType_call ft))"

definition get_avro_schema :: "builtins \<Rightarrow> TableSchema \<Rightarrow> error + gval" where
  "get_avro_schema B ts =
     (let fields = map (\<lambda>(k, v). GDict [(''name'', GStr k), (''type'', avro_type v)]) (ts_fields ts);
          schema = GDict [(''doc'', GStr ''PgRouting compatible OpenStreetMap data''),
                          (''name'', GStr ''PgRouting Data''),
                          (''namespace'', GStr ''osm2po''),
                          (''type'', GStr ''record''),
                          (''fields'', GList fields)]
      in parse_schema B schema)"

definition add_field :: "TableSchema \<Rightarrow> string \<Rightarrow> FieldType \<Rightarrow> TableSchema" where
  "add_field ts k field_type = ts\<lparr>ts_fields := od_set k field_type (ts_fields ts)\<rparr>"

definition add_geometry_column_from_ddl :: "builtins \<Rightarrow> TableSchema \<Rightarrow> string \<Rightarrow> TableSchema" where
  "add_geometry_column_from_ddl B ts ddl =
     (case geometry_column_re ddl of
        None \<Rightarrow> ts
      | Some (table_name, column_name, srid, type, dimension) \<Rightarrow>
          add_field ts column_name (FieldType_init (convert_wkb_to_wkt B True) ''string''))"

definition parse_create_table_field :: "builtins \<Rightarrow> string \<Rightarrow> string \<times> FieldType" where
  "parse_create_table_field B field =
     (case str_partition CHR '' '' (str_strip field) of
        (field_name, _, sql_type) \<Rightarrow>
          (field_name,
           od_get (SQL_TABLE_TYPE_MAPPING B) sql_type (FieldType_init py_str ''string'')))"

definition add_fields_from_create_table_ddl :: "builtins \<Rightarrow> TableSchema \<Rightarrow> string \<Rightarrow> TableSchema" where
  "add_fields_from_create_table_ddl B ts ddl =
     (case create_table_re ddl of
        None \<Rightarrow> ts
      | Some (table_name, text_fields) \<Rightarrow>
          (let fs = od_update [] (map (parse_create_table_field B) (str_split CHR '','' text_fields))
           in \<lparr>ts_name = Some table_name, ts_fields = od_update (ts_fields ts) fs\<rparr>))"

section \<open>The csv reader with the dialect of the program\<close>

text \<open>
  \<^verbatim>\<open>csv.register_dialect("sql", skipinitialspace=True, quotechar="'")\<close> leaves the other
  parameters at their defaults: delimiter \<^verbatim>\<open>,\<close>, doubled quotes, no escape character,
  minimal quoting, not strict. The reader is the automaton of CPython's \<^verbatim>\<open>_csv\<close>
  module without the states that only an escape character reaches; \<open>None\<close> is the end of
  a line.
\<close>

record dialect =
  delimiter :: char
  quotechar :: char
  doublequote :: bool
  skipinitialspace :: bool
  strict :: bool

definition sql_dialect :: dialect where
  "sql_dialect =
     \<lparr>delimiter = CHR '','', quotechar = sq, doublequote = True,
      skipinitialspace = True, strict = False\<rparr>"

datatype parser_state =
  START_RECORD | START_FIELD | IN_FIELD | IN_QUOTED_FIELD | QUOTE_IN_QUOTED_FIELD | EAT_CRNL

record reader =
  rd_state :: parser_state
  rd_field :: string
  rd_row :: "string list"

definition field_limit :: nat where
  "field_limit = 131072"

definition parse_reset :: reader where
  "parse_reset = \<lparr>rd_state = START_RECORD, rd_field = [], rd_row = []\<rparr>"

definition parse_save_field :: "reader \<Rightarrow> reader" where
  "parse_save_field rd = rd\<lparr>rd_row := rd_row rd @ [rd_field rd], rd_field := []\<rparr>"

definition parse_add_char :: "reader \<Rightarrow> char \<Rightarrow> error + reader" where
  "parse_add_char rd c =
     (if field_limit \<le> length (rd_field rd) then Inl CsvError
      else Inr (rd\<lparr>rd_field := rd_field rd @ [c]\<rparr>))"

definition is_crlf :: "char \<Rightarrow> bool" where
  "is_crlf c = (c = CHR 0x0A \<or> c = CHR 0x0D)"

definition start_field :: "dialect \<Rightarrow> reader \<Rightarrow> char option \<Rightarrow> error + reader" where
  "start_field d rd ch =
     (case ch of
        None \<Rightarrow> Inr ((parse_save_field rd)\<lparr>rd_state := START_RECORD\<rparr>)
      | Some c \<Rightarrow>
          if is_crlf c then Inr ((parse_save_field rd)\<lparr>rd_state := EAT_CRNL\<rparr>)
          else if c = quotechar d then Inr (rd\<lparr>rd_state := IN_QUOTED_FIELD\<rparr>)
          else if c = CHR '' '' \<and> skipinitialspace d then Inr (rd\<lparr>rd_state := START_FIELD\<rparr>)
          else if c = delimiter d then Inr ((parse_save_field rd)\<lparr>rd_state := START_FIELD\<rparr>)
          else (case parse_add_char rd c of
                  Inl e \<Rightarrow> Inl e
                | Inr rd' \<Rightarrow> Inr (rd'\<lparr>rd_state := IN_FIELD\<rparr>)))"

definition parse_process_char :: "dialect \<Rightarrow> reader \<Rightarrow> char option \<Rightarrow> error + reader" where
  "parse_process_char d rd ch =
     (case rd_state rd of
        START_RECORD \<Rightarrow>
          (case ch of
             None \<Rightarrow> Inr rd
           | Some c \<Rightarrow> if is_crlf c then Inr (rd\<lparr>rd_state := EAT_CRNL\<rparr>) else start_field d rd ch)
      | START_FIELD \<Rightarrow> start_field d rd ch
      | IN_FIELD \<Rightarrow>
          (case ch of
             None \<Rightarrow> Inr ((parse_save_field rd)\<lparr>rd_state := START_RECORD\<rparr>)
           | Some c \<Rightarrow>
               if is_crlf c then Inr ((parse_save_field rd)\<lparr>rd_state := EAT_CRNL\<rparr>)
               else if c = delimiter d then Inr ((parse_save_field rd)\<lparr>rd_state := START_FIELD\<rparr>)
               else parse_add_char rd c)
      | IN_QUOTED_FIELD \<Rightarrow>
          (case ch of
             None \<Rightarrow> Inr rd
           | Some c \<Rightarrow>
               if c = quotechar d
               then Inr (rd\<lparr>rd_state := (if doublequote d then QUOTE_IN_QUOTED_FIELD else IN_FIELD)\<rparr>)
               else parse_add_char rd c)
      | QUOTE_IN_QUOTED_FIELD \<Rightarrow>
          (case ch of
             None \<Rightarrow> Inr ((parse_save_field rd)\<lparr>rd_state := START_RECORD\<rparr>)
           | Some c \<Rightarrow>
               if c = quotechar d
               then (case parse_add_char rd c of
                       Inl e \<Rightarrow> Inl e
                     | Inr rd' \<Rightarrow> Inr (rd'\<lparr>rd_state := IN_QUOTED_FIELD\<rparr>))
               else if c = delimiter d then Inr ((parse_save_field rd)\<lparr>rd_state := START_FIELD\<rparr>)
               else if is_crlf c then Inr ((parse_save_field rd)\<lparr>rd_state := EAT_CRNL\<rparr>)
               else if \<not> strict d
               then (case parse_add_char rd c of
                       Inl e \<Rightarrow> Inl e
                     | Inr rd' \<Rightarrow> Inr (rd'\<lparr>rd_state := IN_FIELD\<rparr>))
               else Inl CsvError)
      | EAT_CRNL \<Rightarrow>
          (case ch of
             None \<Rightarrow> Inr (rd\<lparr>rd_state := START_RECORD\<rparr>)
           | Some c \<Rightarrow> if is_crlf c then Inr rd else Inl CsvError))"

fun process_chars :: "dialect \<Rightarrow> reader \<Rightarrow> string \<Rightarrow> error + reader" where
  "process_chars d rd [] = Inr rd"
| "process_chars d rd (c # cs) =
     (case parse_process_char d rd (Some c) of
        Inl e \<Rightarrow> Inl e
      | Inr rd' \<Rightarrow> process_chars d rd' cs)"

definition process_line :: "dialect \<Rightarrow> reader \<Rightarrow> string \<Rightarrow> error + reader" where
  \<comment> \<open>every character of the line, then the end of the line\<close>
  "process_line d rd line =
     (case process_chars d rd line of
        Inl e \<Rightarrow> Inl e
      | Inr rd' \<Rightarrow> parse_process_char d rd' None)"

fun reader_loop :: "dialect \<Rightarrow> reader \<Rightarrow> string list \<Rightarrow> error + (string list \<times> string list)" where
  \<comment> \<open>the loop of \<^verbatim>\<open>Reader_iternext\<close>: lines are consumed until a record is complete;
      the result is the record and the lines that are left\<close>
  "reader_loop d rd [] =
     (if rd_field rd \<noteq> [] \<or> rd_state rd = IN_QUOTED_FIELD
      then (if strict d then Inl CsvError else Inr (rd_row (parse_save_field rd), []))
      else Inl StopIteration)"
| "reader_loop d rd (l # ls) =
     (case process_line d rd l of
        Inl e \<Rightarrow> Inl e
      | Inr rd' \<Rightarrow>
          if rd_state rd' = START_RECORD then Inr (rd_row rd', ls) else reader_loop d rd' ls)"

definition reader_next :: "dialect \<Rightarrow> string list \<Rightarrow> error + (string list \<times> string list)" where
  "reader_next d ls = reader_loop d parse_reset ls"

section \<open>DictReader\<close>

function next_row :: "dialect \<Rightarrow> string list \<Rightarrow> error + (string list \<times> string list)" where
  \<comment> \<open>\<^verbatim>\<open>row = next(self.reader)\<close>, again \<^verbatim>\<open>while row == []\<close>\<close>
  "next_row d ls =
     (case reader_next d ls of
        Inl e \<Rightarrow> Inl e
      | Inr (r, rest) \<Rightarrow> if r = [] then next_row d rest else Inr (r, rest))"
  by pat_completeness auto
termination
proof (relation "measure (\<lambda>(d, ls). length ls)")
  show "wf (measure (\<lambda>(d :: dialect, ls :: string list). length ls))"
    by simp
next
  fix d :: dialect and ls :: "string list" and x2 r rest
  assume a: "reader_next d ls = Inr x2" "(r, rest) = x2" "r = []"
  have shorter: "reader_loop d rd xs = Inr ([], ys) \<Longrightarrow> length ys < length xs" for rd xs ys
  proof (induction xs arbitrary: rd)
    case Nil
    then show ?case
      by (simp add: parse_save_field_def split: if_splits)
  next
    case (Cons l xs)
    then show ?case
      by (fastforce split: sum.splits if_splits)
  qed
  from a have "reader_loop d parse_reset ls = Inr ([], rest)"
    by (simp add: reader_next_def)
  then have "length rest < length ls"
    by (rule shorter)
  then show "((d, rest), (d, ls)) \<in> measure (\<lambda>(d, ls). length ls)"
    by simp
qed

declare next_row.simps [simp del]

definition DictReader_next ::
  "string list \<Rightarrow> dialect \<Rightarrow> string list \<Rightarrow> error + ((string option \<times> raw) list \<times> string list)" where
  \<comment> \<open>\<^verbatim>\<open>DictReader.__next__\<close> with \<^verbatim>\<open>restkey=None\<close> and \<^verbatim>\<open>restval=None\<close>. The field names
      are the schema's \<^verbatim>\<open>keys()\<close> view, which has a length and can be zipped but cannot
      be sliced: \<^verbatim>\<open>self.fieldnames[lr:]\<close> raises \<^verbatim>\<open>TypeError\<close>.\<close>
  "DictReader_next fieldnames d ls =
     (case next_row d ls of
        Inl e \<Rightarrow> Inl e
      | Inr (r, rest) \<Rightarrow>
          (let data = od_update [] (zip (map Some fieldnames) (map RStr r));
               lf = length fieldnames;
               lr = length r
           in if lf < lr then Inr (od_set None (RList (drop lf r)) data, rest)
              else if lr < lf then Inl TypeError
              else Inr (data, rest)))"

section \<open>DDLConverter\<close>

fun convert_items :: "TableSchema \<Rightarrow> (string option \<times> raw) list \<Rightarrow> pyrecord \<Rightarrow> error + pyrecord" where
  \<comment> \<open>\<^verbatim>\<open>{k: table_schema.get_converter(field=k)(v) for k, v in data.items()}\<close>\<close>
  "convert_items ts [] acc = Inr acc"
| "convert_items ts ((k, v) # kvs) acc =
     (case get_converter ts k v of
        Inl e \<Rightarrow> Inl e
      | Inr x \<Rightarrow> convert_items ts kvs (od_set k x acc))"

definition parse_insert_values :: "string \<Rightarrow> TableSchema \<Rightarrow> error + pyrecord" where
  "parse_insert_values values table_schema =
     (case DictReader_next (keys table_schema) sql_dialect [values] of
        Inl e \<Rightarrow> Inl e
      | Inr (data, _) \<Rightarrow> convert_items table_schema data [])"

text \<open>
  A converter object holds the three arguments of its constructor. The functions of the
  class also read two names of the module, \<^verbatim>\<open>output_file\<close> and \<^verbatim>\<open>output_format\<close>, which
  are bound only by the script part of the file; a name that is not bound is \<open>None\<close>
  here, and reading it raises \<^verbatim>\<open>NameError\<close>.
\<close>

record DDLConverter =
  input_file :: string
  output_file :: string
  output_format :: string

record globals =
  global_output_file :: "string option"
  global_output_format :: "string option"

text \<open>
  What a run leaves behind: the files it opened for writing, in order, each with what
  was handed to the stream, and the exception that ended the run, if any.
\<close>

datatype content = Text string | Binary "8 word list"

record outcome =
  written :: "(string \<times> content) list"
  raised :: "error option"

definition no_effect :: outcome where
  "no_effect = \<lparr>written = [], raised = None\<rparr>"

definition raise_error :: "error \<Rightarrow> outcome" where
  "raise_error e = \<lparr>written = [], raised = Some e\<rparr>"

definition then_do :: "outcome \<Rightarrow> outcome \<Rightarrow> outcome" where
  \<comment> \<open>one statement after another: the second runs only if the first did not raise\<close>
  "then_do a b =
     (case raised a of
        Some e \<Rightarrow> a
      | None \<Rightarrow> \<lparr>written = written a @ written b, raised = raised b\<rparr>)"

definition convert_line ::
  "builtins \<Rightarrow> pyrecord list \<times> TableSchema \<Rightarrow> string \<Rightarrow> error + (pyrecord list \<times> TableSchema)" where
  \<comment> \<open>the body of \<^verbatim>\<open>for line in in_fp\<close>\<close>
  "convert_line B st line =
     (case st of (records, ts) \<Rightarrow>
        (let ts1 = (if str_startswith (str_lower line) ''create table''
                    then add_fields_from_create_table_ddl B ts line else ts);
             ts2 = (if str_startswith (str_lower line) ''select addgeometrycolumn''
                    then add_geometry_column_from_ddl B ts1 line else ts1)
         in (case insert_line_re line of
               None \<Rightarrow> Inr (records, ts2)
             | Some values \<Rightarrow>
                 (case parse_insert_values values ts2 of
                    Inl e \<Rightarrow> Inl e
                  | Inr r \<Rightarrow> Inr (records @ [r], ts2)))))"

fun convert_loop ::
  "builtins \<Rightarrow> pyrecord list \<times> TableSchema \<Rightarrow> string list \<Rightarrow> error + (pyrecord list \<times> TableSchema)" where
  "convert_loop B st [] = Inr st"
| "convert_loop B st (line # ls) =
     (case convert_line B st line of
        Inl e \<Rightarrow> Inl e
      | Inr st' \<Rightarrow> convert_loop B st' ls)"

definition write_to_csv :: "builtins \<Rightarrow> string \<Rightarrow> pyrecord list \<Rightarrow> TableSchema \<Rightarrow> outcome" where
  \<comment> \<open>opens the file named by its parameter\<close>
  "write_to_csv B path records table_schema =
     (case open_write B path of
        Some e \<Rightarrow> raise_error e
      | None \<Rightarrow>
          (case DictWriter_writeheader B (keys table_schema) of
             (header, Some e) \<Rightarrow> \<lparr>written = [(path, Text header)], raised = Some e\<rparr>
           | (header, None) \<Rightarrow>
               (case DictWriter_writerows B (keys table_schema) records of
                  (rows, err) \<Rightarrow> \<lparr>written = [(path, Text (header @ rows))], raised = err\<rparr>)))"

fun json_lines :: "builtins \<Rightarrow> pyrecord list \<Rightarrow> string \<Rightarrow> string \<times> error option" where
  \<comment> \<open>the loop \<^verbatim>\<open>for record in records\<close>: each record's \<^verbatim>\<open>json.dumps\<close> and a newline\<close>
  "json_lines B [] acc = (acc, None)"
| "json_lines B (r # rs) acc =
     (case json_dumps B r of
        Inl e \<Rightarrow> (acc, Some e)
      | Inr s \<Rightarrow> json_lines B rs (acc @ s @ [nl]))"

definition write_to_json ::
  "builtins \<Rightarrow> globals \<Rightarrow> string \<Rightarrow> pyrecord list \<Rightarrow> TableSchema \<Rightarrow> outcome" where
  \<comment> \<open>the parameter is \<^verbatim>\<open>output_field\<close>; the file opened is the module's \<^verbatim>\<open>output_file\<close>\<close>
  "write_to_json B G output_field records table_schema =
     (case global_output_file G of
        None \<Rightarrow> raise_error NameError
      | Some path \<Rightarrow>
          (case open_write B path of
             Some e \<Rightarrow> raise_error e
           | None \<Rightarrow>
               (case json_lines B records [] of
                  (t, err) \<Rightarrow> \<lparr>written = [(path, Text t)], raised = err\<rparr>)))"

definition write_to_avro ::
  "builtins \<Rightarrow> globals \<Rightarrow> string \<Rightarrow> pyrecord list \<Rightarrow> TableSchema \<Rightarrow> outcome" where
  \<comment> \<open>the parameter is \<^verbatim>\<open>output_field\<close>; the file opened is the module's \<^verbatim>\<open>output_file\<close>\<close>
  "write_to_avro B G output_field records table_schema =
     (case global_output_file G of
        None \<Rightarrow> raise_error NameError
      | Some path \<Rightarrow>
          (case open_write B path of
             Some e \<Rightarrow> raise_error e
           | None \<Rightarrow>
               (case get_avro_schema B table_schema of
                  Inl e \<Rightarrow> \<lparr>written = [(path, Binary [])], raised = Some e\<rparr>
                | Inr schema \<Rightarrow>
                    (case fastavro_writer B schema records of
                       (bs, err) \<Rightarrow> \<lparr>written = [(path, Binary bs)], raised = err\<rparr>))))"

definition convert :: "builtins \<Rightarrow> globals \<Rightarrow> DDLConverter \<Rightarrow> string list \<Rightarrow> outcome" where
  \<comment> \<open>\<^verbatim>\<open>self.convert()\<close> on the lines of the input file, each with its newline. The three
      tests after the pass read the module's \<^verbatim>\<open>output_format\<close>, not the attribute.\<close>
  "convert B G self lines =
     (case convert_loop B ([], TableSchema_init) lines of
        Inl e \<Rightarrow> raise_error e
      | Inr (records, table_schema) \<Rightarrow>
          (case global_output_format G of
             None \<Rightarrow> raise_error NameError
           | Some fmt \<Rightarrow>
               then_do (if fmt = ''csv''
                        then write_to_csv B (output_file self) records table_schema
                        else no_effect)
              (then_do (if fmt = ''json''
                        then write_to_json B G (output_file self) records table_schema
                        else no_effect)
                       (if fmt = ''avro''
                        then write_to_avro B G (output_file self) records table_schema
                        else no_effect))))"

text \<open>
  The script part of the file. The arguments are what \<^verbatim>\<open>parse_args\<close> returns: an option
  that is not given has its default (\<^verbatim>\<open>sample2.sql\<close>, \<^verbatim>\<open>None\<close>, \<^verbatim>\<open>csv\<close>). The script binds
  the module's names and runs a converter built from the same values.
\<close>

record args =
  args_input :: string
  args_output :: "string option"
  args_format :: string

definition default_args :: args where
  "default_args = \<lparr>args_input = ''sample2.sql'', args_output = None, args_format = ''csv''\<rparr>"

definition main :: "builtins \<Rightarrow> args \<Rightarrow> string list \<Rightarrow> outcome" where
  "main B a lines =
     (let inp = args_input a;
          fmt = args_format a;
          out = (if args_output a = None \<or> args_output a = Some []
                 then fst (str_rpartition CHR ''.'' inp) @ ''.'' @ str_lower fmt
                 else the (args_output a))
      in convert B \<lparr>global_output_file = Some out, global_output_format = Some fmt\<rparr>
           \<lparr>input_file = inp, output_file = out, output_format = fmt\<rparr> lines)"

section \<open>The Row Parser in the words of the specification\<close>

text \<open>
  Section 4.4 of the specification, for a row with one raw value per column: the columns
  are taken in schema order; a raw value equal to the column's null token gives null, any
  other raw value gives the result of the column's converter, and an error of a converter
  ends the row. The result has one entry per column, keyed by the column name.
\<close>

fun record_of_row :: "(string \<times> FieldType) list \<Rightarrow> string list \<Rightarrow> error + pyrecord" where
  "record_of_row [] vs = Inr []"
| "record_of_row ((k, ft) # fs) [] = Inr []"
| "record_of_row ((k, ft) # fs) (v # vs) =
     (case (if RStr v = null_value ft then Inr VNone else type_converter ft (RStr v)) of
        Inl e \<Rightarrow> Inl e
      | Inr x \<Rightarrow>
          (case record_of_row fs vs of
             Inl e \<Rightarrow> Inl e
           | Inr rec \<Rightarrow> Inr ((Some k, x) # rec)))"

section \<open>The column pieces in the words of the specification\<close>

text \<open>
  Section 4.3 of the specification splits each piece of the comma-separated body on its
  first whitespace run into the column name and the SQL type text, and resolves the type
  text through the Type Registry. The piece is stripped first, as the code does, so that
  the space after a comma is not taken for the run.
\<close>

definition split_first_whitespace_run :: "string \<Rightarrow> string \<times> string" where
  "split_first_whitespace_run s =
     (takeWhile (\<lambda>c. \<not> py_isspace c) s,
      dropWhile py_isspace (dropWhile (\<lambda>c. \<not> py_isspace c) s))"

definition spec_create_table_field :: "builtins \<Rightarrow> string \<Rightarrow> string \<times> FieldType" where
  "spec_create_table_field B piece =
     (case split_first_whitespace_run (str_strip piece) of
        (field_name, sql_type) \<Rightarrow>
          (field_name,
           od_get (SQL_TABLE_TYPE_MAPPING B) sql_type (FieldType_init py_str ''string'')))"

section \<open>Row texts built from literals\<close>

text \<open>
  To state what the reader does with quoted fields, a row text is built from its
  fields: each field is a single-quoted literal or a bare text, preceded by a number of
  spaces, and the fields are joined by commas. A quoted literal may hold any characters;
  a quote inside it is written twice, as in SQL.
\<close>

datatype literal = Quoted string | Bare string

definition double_quotes :: "string \<Rightarrow> string" where
  "double_quotes q = concat (map (\<lambda>c. if c = sq then [sq, sq] else [c]) q)"

fun literal_text :: "literal \<Rightarrow> string" where
  "literal_text (Quoted q) = [sq] @ double_quotes q @ [sq]"
| "literal_text (Bare b) = b"

fun literal_value :: "literal \<Rightarrow> string" where
  "literal_value (Quoted q) = q"
| "literal_value (Bare b) = b"

definition row_text :: "(nat \<times> literal) list \<Rightarrow> string" where
  "row_text items = str_join '','' (map (\<lambda>(n, l). replicate n CHR '' '' @ literal_text l) items)"

definition row_values :: "(nat \<times> literal) list \<Rightarrow> string list" where
  "row_values items = map (\<lambda>(n, l). literal_value l) items"

fun wf_literal :: "literal \<Rightarrow> bool" where
  "wf_literal (Quoted q) = (length q \<le> field_limit)"
| "wf_literal (Bare b) =
     (CHR '','' \<notin> set b \<and> CHR 0x0A \<notin> set b \<and> CHR 0x0D \<notin> set b
      \<and> length b \<le> field_limit
      \<and> (case b of [] \<Rightarrow> True | c # cs \<Rightarrow> c \<noteq> CHR '' '' \<and> c \<noteq> sq))"

section \<open>Library results used in the examples\<close>

text \<open>
  The examples below need the libraries at a few inputs. This instance tabulates what
  they return there: the doubles 3.0 and 12.5, the point (1 2) in well-known binary with
  and without an SRID 4326 prefix, the well-known text of that point, and the csv and
  json texts of the single record \<^verbatim>\<open>{'id': 1}\<close>. Every file opens; every other input is
  refused.
\<close>

definition wkb_point :: "8 word list" where
  "wkb_point =
     [0x01, 0x01, 0x00, 0x00, 0x00,
      0x00, 0x00, 0x00, 0x00, 0x00, 0x00, 0xF0, 0x3F,
      0x00, 0x00, 0x00, 0x00, 0x00, 0x00, 0x00, 0x40]"

definition ewkb_point :: "8 word list" where
  "ewkb_point =
     [0x01, 0x01, 0x00, 0x00, 0x20, 0xE6, 0x10, 0x00, 0x00,
      0x00, 0x00, 0x00, 0x00, 0x00, 0x00, 0xF0, 0x3F,
      0x00, 0x00, 0x00, 0x00, 0x00, 0x00, 0x00, 0x40]"

definition point_geom :: geom where
  "point_geom =
     [(''type'', GStr ''Point''),
      (''coordinates'', GList [GFloat 0x3FF0000000000000, GFloat 0x4000000000000000])]"

definition point_geom_srid :: geom where
  "point_geom_srid =
     point_geom @
     [(''meta'', GDict [(''srid'', GInt 4326)]),
      (''crs'', GDict [(''type'', GStr ''name''),
                       (''properties'', GDict [(''name'', GStr ''EPSG4326'')])])]"

definition sample_builtins :: builtins where
  "sample_builtins =
     \<lparr>float_of_str = (\<lambda>s. if s = ''3.0'' then Inr 0x4008000000000000
                            else if s = ''12.5'' then Inr 0x4029000000000000
                            else Inl ValueError),
      wkb_loads = (\<lambda>bs. if bs = ewkb_point then Inr point_geom_srid
                         else if bs = wkb_point then Inr point_geom
                         else Inl ValueError),
      wkt_dumps = (\<lambda>g. if g = point_geom
                        then Inr ''POINT (1.0000000000000000 2.0000000000000000)''
                        else Inl ValueError),
      open_write = (\<lambda>path. None),
      DictWriter_writeheader = (\<lambda>names. if names = [''id'']
                                         then ([CHR 0x22] @ ''id'' @ [CHR 0x22, CHR 0x0D, CHR 0x0A], None)
                                         else ([], Some ValueError)),
      DictWriter_writerows = (\<lambda>names rows. if names = [''id''] \<and> rows = [[(Some ''id'', VInt 1)]]
                                            then (''1'' @ [CHR 0x0D, CHR 0x0A], None)
                                            else ([], Some ValueError)),
      json_dumps = (\<lambda>r. if r = [(Some ''id'', VInt 1)]
                         then Inr (''{'' @ [CHR 0x22] @ ''id'' @ [CHR 0x22] @ '': 1}'')
                         else Inl ValueError),
      parse_schema = (\<lambda>schema. Inl ValueError),
      fastavro_writer = (\<lambda>schema rows. ([], Some ValueError))\<rparr>"

section \<open>Evaluation and basic facts\<close>

lemma char_of_eq_iff2: "(c = char_of n) = (take_bit 8 n = of_char c)"
  using char_of_eq_iff[of n c] by auto

lemmas str_eval = str_startswith_def str_lower_def py_lower_def str_strip_def py_isspace_def
  str_partition_def sq_def nl_def Let_def char_of_eq_iff char_of_eq_iff2

lemmas re_eval = create_table_re_def geometry_column_re_def insert_line_re_def re_dot_def
  re_sep_def re_end_def is_digit_def nl_def sq_def

lemmas reader_eval = reader_next_def process_line_def parse_process_char_def start_field_def
  parse_add_char_def parse_save_field_def parse_reset_def sql_dialect_def field_limit_def
  is_crlf_def sq_def

lemmas conv_eval = py_int_def py_str_def py_float_def int_of_str_def int_space_def digit_val_def
  int_max_str_digits_def is_digit_def Let_def

lemmas field_eval = keys_def get_converter_def FieldType_init_def FieldType_call_def

lemma reader_next_Nil: "reader_next d [] = Inl StopIteration"
  by (simp add: reader_next_def parse_reset_def)

lemma reader_loop_single: "reader_loop d rd [l] = Inr (r, rest) \<Longrightarrow> rest = []"
  by (auto split: sum.splits if_splits)

lemma next_row_single:
  "next_row d [l] =
     (case reader_next d [l] of
        Inl e \<Rightarrow> Inl e
      | Inr (r, rest) \<Rightarrow> if r = [] then Inl StopIteration else Inr (r, []))"
proof (cases "reader_next d [l]")
  case (Inl e)
  then show ?thesis by (simp add: next_row.simps[of d "[l]"])
next
  case (Inr x)
  obtain r rest where x: "x = (r, rest)" by (cases x)
  with Inr have "rest = []"
    using reader_loop_single[of d parse_reset l r rest] by (simp add: reader_next_def)
  with Inr x show ?thesis
    by (simp add: next_row.simps[of d "[l]"] next_row.simps[of d "[]"] reader_next_Nil)
qed

lemma parse_insert_values_row:
  "reader_next sql_dialect [values] = Inr (r, rest) \<Longrightarrow>
   parse_insert_values values ts =
     (if r = [] then Inl StopIteration
      else if length (ts_fields ts) < length r
        then convert_items ts
               (od_set None (RList (drop (length (ts_fields ts)) r))
                  (od_update [] (zip (map Some (keys ts)) (map RStr r)))) []
      else if length r < length (ts_fields ts) then Inl TypeError
      else convert_items ts (od_update [] (zip (map Some (keys ts)) (map RStr r))) [])"
  by (simp add: parse_insert_values_def DictReader_next_def next_row_single keys_def Let_def)

section \<open>Type Registry\<close>

lemma int_digits_all:
  "\<forall>c\<in>set ds. is_digit c \<Longrightarrow> p \<or> ds \<noteq> [] \<Longrightarrow>
   int_digits p acc ds = Some (foldl (\<lambda>a c. 10 * a + digit_val c) acc ds)"
  by (induction ds arbitrary: p acc) auto

lemma digit_not_space: "is_digit c \<Longrightarrow> \<not> int_space c"
  by (auto simp: is_digit_def int_space_def Let_def)

lemma digit_not_sign: "is_digit c \<Longrightarrow> c \<noteq> CHR ''-'' \<and> c \<noteq> CHR ''+''"
  by (auto simp: is_digit_def)

lemma int_of_str_decimal:
  assumes "ds \<noteq> []" "\<forall>c\<in>set ds. is_digit c" "length ds \<le> 4300"
  shows "int_of_str ds = Inr (int (foldl (\<lambda>a c. 10 * a + digit_val c) 0 ds))"
proof -
  obtain c cs where ds: "ds = c # cs"
    using assms(1) by (cases ds) auto
  have l: "is_digit (last ds)"
    using assms by simp
  have h: "is_digit c"
    using assms ds by simp
  have s1: "dropWhile int_space ds = ds"
    using h ds by (simp add: digit_not_space)
  have s2: "dropWhile int_space (rev ds) = rev ds"
    using l assms(1) by (cases "rev ds") (auto simp: digit_not_space last_rev dest: arg_cong[where f=hd])
  have f: "filter is_digit cs = cs" "is_digit c"
    using assms ds by (auto simp: filter_id_conv)
  show ?thesis
    using int_digits_all[OF assms(2), of False 0] assms(1,3) digit_not_sign[OF h]
    by (simp add: int_of_str_def s1 s2 int_max_str_digits_def) (simp add: ds f)
qed

text \<open>
  C6. The lookup of a SQL type name, as the Schema Builder does it for the type text of
  a column, is the dictionary's \<^verbatim>\<open>get\<close> with a default. It compares exact strings and
  returns: for \<^verbatim>\<open>integer\<close> the integer parser with structured type \<^verbatim>\<open>int\<close>, for
  \<^verbatim>\<open>bigint\<close> the integer parser with structured type \<^verbatim>\<open>long\<close>, for
  \<^verbatim>\<open>double precision\<close> the float parser with structured type \<^verbatim>\<open>double\<close>, and for
  \<^verbatim>\<open>character varying\<close> and every other name the string pass-through with structured
  type \<^verbatim>\<open>string\<close>, each with the null token \<^verbatim>\<open>null\<close>. The lookup is a total function,
  so it never raises. The converter found for \<^verbatim>\<open>integer\<close> and \<^verbatim>\<open>bigint\<close> reads a string
  of digits in base 10; the one found for \<^verbatim>\<open>double precision\<close> returns what the float
  parser returns; the one found for any other name returns its text unchanged and does
  not raise.
\<close>

theorem type_registry_lookup:
  "od_get (SQL_TABLE_TYPE_MAPPING B) t (FieldType_init py_str ''string'') =
     (if t = ''integer''
        then \<lparr>type_converter = py_int, avro_data_type = ''int'', null_value = RStr ''null''\<rparr>
      else if t = ''bigint''
        then \<lparr>type_converter = py_int, avro_data_type = ''long'', null_value = RStr ''null''\<rparr>
      else if t = ''double precision''
        then \<lparr>type_converter = py_float B, avro_data_type = ''double'', null_value = RStr ''null''\<rparr>
      else \<lparr>type_converter = py_str, avro_data_type = ''string'', null_value = RStr ''null''\<rparr>)
   \<and> snd (parse_create_table_field B field) =
       od_get (SQL_TABLE_TYPE_MAPPING B) (snd (snd (str_partition CHR '' '' (str_strip field))))
         (FieldType_init py_str ''string'')
   \<and> (t \<in> {''integer'', ''bigint''} \<and> ds \<noteq> [] \<and> (\<forall>c\<in>set ds. is_digit c) \<and> length ds \<le> 4300 \<longrightarrow>
        type_converter (od_get (SQL_TABLE_TYPE_MAPPING B) t (FieldType_init py_str ''string'')) (RStr ds)
          = Inr (VInt (int (foldl (\<lambda>a c. 10 * a + digit_val c) 0 ds))))
   \<and> (t = ''double precision'' \<longrightarrow>
        type_converter (od_get (SQL_TABLE_TYPE_MAPPING B) t (FieldType_init py_str ''string'')) (RStr s)
          = (case float_of_str B s of Inl e \<Rightarrow> Inl e | Inr x \<Rightarrow> Inr (VFloat x)))
   \<and> (t \<notin> {''integer'', ''bigint'', ''double precision''} \<longrightarrow>
        type_converter (od_get (SQL_TABLE_TYPE_MAPPING B) t (FieldType_init py_str ''string'')) (RStr s)
          = Inr (VStr s))"
proof -
  have l: "od_get (SQL_TABLE_TYPE_MAPPING B) t (FieldType_init py_str ''string'') =
     (if t = ''integer''
        then \<lparr>type_converter = py_int, avro_data_type = ''int'', null_value = RStr ''null''\<rparr>
      else if t = ''bigint''
        then \<lparr>type_converter = py_int, avro_data_type = ''long'', null_value = RStr ''null''\<rparr>
      else if t = ''double precision''
        then \<lparr>type_converter = py_float B, avro_data_type = ''double'', null_value = RStr ''null''\<rparr>
      else \<lparr>type_converter = py_str, avro_data_type = ''string'', null_value = RStr ''null''\<rparr>)"
    by (simp add: od_get_def SQL_TABLE_TYPE_MAPPING_def FieldType_init_def)
  have f: "snd (parse_create_table_field B field) =
       od_get (SQL_TABLE_TYPE_MAPPING B) (snd (snd (str_partition CHR '' '' (str_strip field))))
         (FieldType_init py_str ''string'')"
    by (simp add: parse_create_table_field_def split: prod.splits)
  have i: "py_int (RStr ds) = Inr (VInt (int (foldl (\<lambda>a c. 10 * a + digit_val c) 0 ds)))"
    if "ds \<noteq> []" "\<forall>c\<in>set ds. is_digit c" "length ds \<le> 4300"
    using that by (simp add: py_int_def int_of_str_decimal)
  show ?thesis
    unfolding l using f i by (auto simp: py_str_def py_float_def)
qed

theorem type_registry_lookup_witness:
  "od_get (SQL_TABLE_TYPE_MAPPING sample_builtins) ''INTEGER'' (FieldType_init py_str ''string'')
     = \<lparr>type_converter = py_str, avro_data_type = ''string'', null_value = RStr ''null''\<rparr>
   \<and> od_get (SQL_TABLE_TYPE_MAPPING sample_builtins) ''bigint'' (FieldType_init py_str ''string'')
     = \<lparr>type_converter = py_int, avro_data_type = ''long'', null_value = RStr ''null''\<rparr>
   \<and> avro_data_type (snd (parse_create_table_field sample_builtins '' id integer'')) = ''int''
   \<and> type_converter
         (od_get (SQL_TABLE_TYPE_MAPPING sample_builtins) ''bigint'' (FieldType_init py_str ''string''))
         (RStr ''42'') = Inr (VInt 42)
   \<and> type_converter
         (od_get (SQL_TABLE_TYPE_MAPPING sample_builtins) ''double precision''
            (FieldType_init py_str ''string''))
         (RStr ''12.5'') = Inr (VFloat 0x4029000000000000)
   \<and> type_converter
         (od_get (SQL_TABLE_TYPE_MAPPING sample_builtins) ''INTEGER'' (FieldType_init py_str ''string''))
         (RStr ''42'') = Inr (VStr ''42'')"
proof -
  have d: "''42'' \<noteq> [] \<and> (\<forall>c\<in>set ''42''. is_digit c) \<and> length ''42'' \<le> 4300"
    by (simp add: is_digit_def)
  have v: "int (foldl (\<lambda>a c. 10 * a + digit_val c) 0 ''42'') = 42"
    by (simp add: digit_val_def)
  have p: "snd (snd (str_partition CHR '' '' (str_strip '' id integer''))) = ''integer''"
    by (simp add: str_eval)
  have f: "float_of_str sample_builtins ''12.5'' = Inr 0x4029000000000000"
    by (simp add: sample_builtins_def)
  note ti = type_registry_lookup[of sample_builtins "''INTEGER''" "'' id integer''" "''42''" "''42''"]
  note tb = type_registry_lookup[of sample_builtins "''bigint''" "'' id integer''" "''42''" "''42''"]
  note td = type_registry_lookup[of sample_builtins "''double precision''" "'' id integer''" "''42''" "''12.5''"]
  note tf = type_registry_lookup[of sample_builtins "''integer''" "'' id integer''" "''42''" "''42''"]
  have 1: "od_get (SQL_TABLE_TYPE_MAPPING sample_builtins) ''INTEGER'' (FieldType_init py_str ''string'')
     = \<lparr>type_converter = py_str, avro_data_type = ''string'', null_value = RStr ''null''\<rparr>"
    using ti[THEN conjunct1] by simp
  have 6: "type_converter
         (od_get (SQL_TABLE_TYPE_MAPPING sample_builtins) ''INTEGER'' (FieldType_init py_str ''string''))
         (RStr ''42'') = Inr (VStr ''42'')"
    using ti[THEN conjunct2, THEN conjunct2, THEN conjunct2, THEN conjunct2] by simp
  have 2: "od_get (SQL_TABLE_TYPE_MAPPING sample_builtins) ''bigint'' (FieldType_init py_str ''string'')
     = \<lparr>type_converter = py_int, avro_data_type = ''long'', null_value = RStr ''null''\<rparr>"
    using tb[THEN conjunct1] by simp
  have 4: "type_converter
         (od_get (SQL_TABLE_TYPE_MAPPING sample_builtins) ''bigint'' (FieldType_init py_str ''string''))
         (RStr ''42'') = Inr (VInt 42)"
    using tb[THEN conjunct2, THEN conjunct2, THEN conjunct1] d v by simp
  have 5: "type_converter
         (od_get (SQL_TABLE_TYPE_MAPPING sample_builtins) ''double precision''
            (FieldType_init py_str ''string''))
         (RStr ''12.5'') = Inr (VFloat 0x4029000000000000)"
    using td[THEN conjunct2, THEN conjunct2, THEN conjunct2, THEN conjunct1] f by simp
  have 3: "avro_data_type (snd (parse_create_table_field sample_builtins '' id integer'')) = ''int''"
    using tf[THEN conjunct1] tf[THEN conjunct2, THEN conjunct1] p by simp
  from 1 2 3 4 5 6 show ?thesis by blast
qed

section \<open>FieldType: null token\<close>

lemma example_create_table:
  "add_fields_from_create_table_ddl B TableSchema_init
     (''CREATE TABLE roads(id integer, name character varying, cost double precision);'' @ [nl])
   = \<lparr>ts_name = Some ''roads'',
      ts_fields = [(''id'', FieldType_init py_int ''int''),
                   (''name'', FieldType_init py_str ''string''),
                   (''cost'', FieldType_init (py_float B) ''double'')]\<rparr>"
  by (simp add: add_fields_from_create_table_ddl_def re_eval)
     (simp add: parse_create_table_field_def str_eval SQL_TABLE_TYPE_MAPPING_def od_get_def
        TableSchema_init_def)

lemma example_insert_line:
  "insert_line_re (''(2, '' @ [sq] @ ''null'' @ [sq] @ '', 3.0);'' @ [nl])
   = Some (''2, '' @ [sq] @ ''null'' @ [sq] @ '', 3.0'')"
  by (simp add: re_eval)

lemma example_reader:
  "reader_next sql_dialect [''2, '' @ [sq] @ ''null'' @ [sq] @ '', 3.0'']
   = Inr ([''2'', ''null'', ''3.0''], [])"
  by (simp add: reader_eval)

lemma example_row:
  "float_of_str B ''3.0'' = Inr x \<Longrightarrow>
   parse_insert_values (''2, '' @ [sq] @ ''null'' @ [sq] @ '', 3.0'')
     \<lparr>ts_name = Some ''roads'',
      ts_fields = [(''id'', FieldType_init py_int ''int''),
                   (''name'', FieldType_init py_str ''string''),
                   (''cost'', FieldType_init (py_float B) ''double'')]\<rparr>
   = Inr [(Some ''id'', VInt 2), (Some ''name'', VNone), (Some ''cost'', VFloat x)]"
  using parse_insert_values_row[OF example_reader,
      of "\<lparr>ts_name = Some ''roads'',
           ts_fields = [(''id'', FieldType_init py_int ''int''),
                        (''name'', FieldType_init py_str ''string''),
                        (''cost'', FieldType_init (py_float B) ''double'')]\<rparr>"]
  by (simp add: field_eval conv_eval)

lemma example_run:
  "float_of_str B ''3.0'' = Inr x \<Longrightarrow>
   convert_loop B ([], TableSchema_init)
     [''CREATE TABLE roads(id integer, name character varying, cost double precision);'' @ [nl],
      ''(2, '' @ [sq] @ ''null'' @ [sq] @ '', 3.0);'' @ [nl]]
   = Inr ([[(Some ''id'', VInt 2), (Some ''name'', VNone), (Some ''cost'', VFloat x)]],
          \<lparr>ts_name = Some ''roads'',
           ts_fields = [(''id'', FieldType_init py_int ''int''),
                        (''name'', FieldType_init py_str ''string''),
                        (''cost'', FieldType_init (py_float B) ''double'')]\<rparr>)"
  using example_create_table[of B] example_insert_line example_row[of B x]
  by (simp add: convert_line_def str_eval insert_line_re_def re_dot_def re_sep_def re_end_def)

text \<open>
  C4. For every FieldType and every raw value: a value equal to the null token gives the
  null value, whatever the conversion function is (also one that raises on every input,
  so it is not invoked); any other value gives what the conversion function returns on
  it. Example: with the schema of
  \<^verbatim>\<open>CREATE TABLE roads(id integer, name character varying, cost double precision);\<close>
  the row \<^verbatim>\<open>(2, 'null', 3.0);\<close> gives the record \<^verbatim>\<open>{id: 2, name: None, cost: 3.0}\<close>,
  where 3.0 is the double with bit pattern \<^verbatim>\<open>0x4008000000000000\<close>.
\<close>

theorem FieldType_call_null_token:
  "FieldType_call ft (null_value ft) = Inr VNone
   \<and> FieldType_call (ft\<lparr>type_converter := (\<lambda>v. Inl e)\<rparr>) (null_value ft) = Inr VNone
   \<and> (v \<noteq> null_value ft \<longrightarrow> FieldType_call ft v = type_converter ft v)
   \<and> (float_of_str B ''3.0'' = Inr 0x4008000000000000 \<longrightarrow>
        (case convert_loop B ([], TableSchema_init)
                [''CREATE TABLE roads(id integer, name character varying, cost double precision);'' @ [nl],
                 ''(2, '' @ [sq] @ ''null'' @ [sq] @ '', 3.0);'' @ [nl]] of
           Inl err \<Rightarrow> Inl err
         | Inr (records, table_schema) \<Rightarrow> Inr records)
        = Inr [[(Some ''id'', VInt 2), (Some ''name'', VNone),
                (Some ''cost'', VFloat 0x4008000000000000)]])"
  using example_run[of B "0x4008000000000000"]
  by (auto simp: FieldType_call_def)

theorem FieldType_call_null_token_witness:
  "FieldType_call (FieldType_init py_int ''int'') (RStr ''null'') = Inr VNone
   \<and> FieldType_call (FieldType_init py_int ''int'') (RStr ''7'') = Inr (VInt 7)
   \<and> (case convert_loop sample_builtins ([], TableSchema_init)
              [''CREATE TABLE roads(id integer, name character varying, cost double precision);'' @ [nl],
               ''(2, '' @ [sq] @ ''null'' @ [sq] @ '', 3.0);'' @ [nl]] of
         Inl err \<Rightarrow> Inl err
       | Inr (records, table_schema) \<Rightarrow> Inr records)
      = Inr [[(Some ''id'', VInt 2), (Some ''name'', VNone),
              (Some ''cost'', VFloat 0x4008000000000000)]]"
  using FieldType_call_null_token[of "FieldType_init py_int ''int''" TypeError "RStr ''7''"
      sample_builtins]
  by (simp add: FieldType_init_def sample_builtins_def conv_eval)

section \<open>Output format\<close>

lemma example_small_run:
  "convert_loop B ([], TableSchema_init) [''CREATE TABLE t(id integer);'' @ [nl], ''(1);'' @ [nl]]
   = Inr ([[(Some ''id'', VInt 1)]],
          \<lparr>ts_name = Some ''t'', ts_fields = [(''id'', FieldType_init py_int ''int'')]\<rparr>)"
proof -
  have c: "add_fields_from_create_table_ddl B TableSchema_init (''CREATE TABLE t(id integer);'' @ [nl])
           = \<lparr>ts_name = Some ''t'', ts_fields = [(''id'', FieldType_init py_int ''int'')]\<rparr>"
    by (simp add: add_fields_from_create_table_ddl_def re_eval)
       (simp add: parse_create_table_field_def str_eval SQL_TABLE_TYPE_MAPPING_def od_get_def
          TableSchema_init_def)
  have i: "insert_line_re (''(1);'' @ [nl]) = Some ''1''"
    by (simp add: re_eval)
  have r: "reader_next sql_dialect [''1''] = Inr ([''1''], [])"
    by (simp add: reader_eval)
  have p: "parse_insert_values ''1''
             \<lparr>ts_name = Some ''t'', ts_fields = [(''id'', FieldType_init py_int ''int'')]\<rparr>
           = Inr [(Some ''id'', VInt 1)]"
    using parse_insert_values_row[OF r,
        of "\<lparr>ts_name = Some ''t'', ts_fields = [(''id'', FieldType_init py_int ''int'')]\<rparr>"]
    by (simp add: field_eval conv_eval)
  show ?thesis
    using c i p
    by (simp add: convert_line_def str_eval insert_line_re_def re_dot_def re_sep_def re_end_def)
qed

lemma convert_after_pass:
  "convert_loop B ([], TableSchema_init) lines = Inr (records, table_schema) \<Longrightarrow>
   global_output_format G = Some fmt \<Longrightarrow>
   convert B G self lines =
     then_do (if fmt = ''csv''
              then write_to_csv B (output_file self) records table_schema else no_effect)
    (then_do (if fmt = ''json''
              then write_to_json B G (output_file self) records table_schema else no_effect)
             (if fmt = ''avro''
              then write_to_avro B G (output_file self) records table_schema else no_effect))"
  by (simp add: convert_def)

lemma convert_other_format:
  "global_output_format G = Some fmt \<Longrightarrow> fmt \<noteq> ''csv'' \<Longrightarrow> fmt \<noteq> ''json'' \<Longrightarrow> fmt \<noteq> ''avro'' \<Longrightarrow>
   convert B G self lines =
     \<lparr>written = [],
      raised = (case convert_loop B ([], TableSchema_init) lines of
                  Inl e \<Rightarrow> Some e
                | Inr st \<Rightarrow> None)\<rparr>"
  by (simp add: convert_def raise_error_def no_effect_def then_do_def split: sum.splits prod.splits)

lemma convert_unbound_format:
  "convert_loop B ([], TableSchema_init) lines = Inr st \<Longrightarrow> global_output_format G = None \<Longrightarrow>
   convert B G self lines = \<lparr>written = [], raised = Some NameError\<rparr>"
  by (cases st) (simp add: convert_def raise_error_def)

lemma lower_format_name:
  "str_lower fmt \<notin> {''csv'', ''json'', ''avro''} \<Longrightarrow>
   fmt \<noteq> ''csv'' \<and> fmt \<noteq> ''json'' \<and> fmt \<noteq> ''avro''"
  by (auto simp: str_lower_def py_lower_def)

lemma example_csv_run:
  "main sample_builtins default_args [''CREATE TABLE t(id integer);'' @ [nl], ''(1);'' @ [nl]]
   = \<lparr>written = [(''sample2.csv'',
                    Text ([CHR 0x22] @ ''id'' @ [CHR 0x22, CHR 0x0D, CHR 0x0A] @ ''1'' @ [CHR 0x0D, CHR 0x0A]))],
      raised = None\<rparr>"
  using convert_after_pass[OF example_small_run, of
      "\<lparr>global_output_file = Some ''sample2.csv'', global_output_format = Some ''csv''\<rparr>" "''csv''"
      sample_builtins
      "\<lparr>input_file = ''sample2.sql'', output_file = ''sample2.csv'', output_format = ''csv''\<rparr>"]
  by (simp add: main_def default_args_def str_rpartition_def str_lower_def py_lower_def
      write_to_csv_def keys_def sample_builtins_def then_do_def no_effect_def)

lemma example_json_run:
  "main sample_builtins \<lparr>args_input = ''roads.sql'', args_output = Some ''out.txt'', args_format = ''json''\<rparr>
     [''CREATE TABLE t(id integer);'' @ [nl], ''(1);'' @ [nl]]
   = \<lparr>written = [(''out.txt'', Text (''{'' @ [CHR 0x22] @ ''id'' @ [CHR 0x22] @ '': 1}'' @ [nl]))],
      raised = None\<rparr>"
  using convert_after_pass[OF example_small_run, of
      "\<lparr>global_output_file = Some ''out.txt'', global_output_format = Some ''json''\<rparr>" "''json''"
      sample_builtins
      "\<lparr>input_file = ''roads.sql'', output_file = ''out.txt'', output_format = ''json''\<rparr>"]
  by (simp add: main_def write_to_json_def sample_builtins_def then_do_def no_effect_def)

text \<open>
  C2, as the claim states it, fails: the script run with \<^verbatim>\<open>--format xml\<close> over a table
  definition and one row ends normally, with no error raised and no file written.
\<close>

theorem unrecognized_format_counterexample:
  "main sample_builtins \<lparr>args_input = ''roads.sql'', args_output = None, args_format = ''xml''\<rparr>
     [''CREATE TABLE t(id integer);'' @ [nl], ''(1);'' @ [nl]]
   = \<lparr>written = [], raised = None\<rparr>"
  using example_small_run[of sample_builtins]
    convert_other_format[of
      "\<lparr>global_output_file = Some ''roads.xml'', global_output_format = Some ''xml''\<rparr>" "''xml''"
      sample_builtins
      "\<lparr>input_file = ''roads.sql'', output_file = ''roads.xml'', output_format = ''xml''\<rparr>"
      "[''CREATE TABLE t(id integer);'' @ [nl], ''(1);'' @ [nl]]"]
  by (simp add: main_def str_rpartition_def str_lower_def py_lower_def)

text \<open>
  C2, amended. When the requested output format, compared without regard to the case of
  its letters, is not one of \<^verbatim>\<open>csv\<close>, \<^verbatim>\<open>json\<close> and \<^verbatim>\<open>avro\<close>, the script run raises no
  error for it: an error of the pass over the input still ends the run, and otherwise the
  run ends normally and no file is opened or written.
\<close>

theorem unrecognized_format_ignored:
  assumes "str_lower (args_format a) \<notin> {''csv'', ''json'', ''avro''}"
  shows "main B a lines =
     \<lparr>written = [],
      raised = (case convert_loop B ([], TableSchema_init) lines of
                  Inl e \<Rightarrow> Some e
                | Inr st \<Rightarrow> None)\<rparr>"
proof -
  have "args_format a \<noteq> ''csv'' \<and> args_format a \<noteq> ''json'' \<and> args_format a \<noteq> ''avro''"
    using assms by (rule lower_format_name)
  then show ?thesis
    by (simp add: main_def Let_def convert_other_format)
qed

theorem unrecognized_format_ignored_witness:
  "str_lower ''parquet'' \<notin> {''csv'', ''json'', ''avro''}
   \<and> main sample_builtins
        \<lparr>args_input = ''roads.sql'', args_output = Some ''roads.out'', args_format = ''parquet''\<rparr>
        [''CREATE TABLE t(id integer);'' @ [nl], ''(1);'' @ [nl]]
      = \<lparr>written = [], raised = None\<rparr>"
  using unrecognized_format_ignored[of
      "\<lparr>args_input = ''roads.sql'', args_output = Some ''roads.out'', args_format = ''parquet''\<rparr>"
      sample_builtins "[''CREATE TABLE t(id integer);'' @ [nl], ''(1);'' @ [nl]]"]
    example_small_run[of sample_builtins]
  by (simp add: str_lower_def py_lower_def)

section \<open>Schema Builder: repeated lines and geometry columns\<close>

lemma od_set_map_of: "map_of (od_set k v d) = (map_of d)(k \<mapsto> v)"
  by (induction d) (auto simp: fun_eq_iff)

lemma od_set_absent: "k \<notin> fst ` set d \<Longrightarrow> od_set k v d = d @ [(k, v)]"
  by (induction d) auto


lemma od_set_same: "map_of d k = Some v \<Longrightarrow> od_set k v d = d"
  by (induction d) (auto split: if_splits)

lemma od_set_idem: "od_set k v (od_set k v d) = od_set k v d"
  by (rule od_set_same) (simp add: od_set_map_of)

lemma od_set_keys:
  "map fst (od_set k v d) = (if k \<in> fst ` set d then map fst d else map fst d @ [k])"
  by (induction d) force+

lemma od_set_distinct: "distinct (map fst d) \<Longrightarrow> distinct (map fst (od_set k v d))"
  by (simp add: od_set_keys)

lemma od_update_distinct: "distinct (map fst d) \<Longrightarrow> distinct (map fst (od_update d kvs))"
  by (induction d kvs rule: od_update.induct) (auto simp: od_set_distinct)

lemma od_update_map_of: "map_of (od_update d kvs) = map_of d ++ map_of (rev kvs)"
  by (induction d kvs rule: od_update.induct) (auto simp: od_set_map_of fun_eq_iff map_add_def split: option.splits)

lemma od_update_fixed:
  "\<forall>(k, v) \<in> set kvs. map_of d k = Some v \<Longrightarrow> od_update d kvs = d"
  by (induction d kvs rule: od_update.induct) (auto simp: od_set_same)

lemma od_update_twice:
  assumes "distinct (map fst kvs)"
  shows "od_update (od_update d kvs) kvs = od_update d kvs"
proof (rule od_update_fixed, clarify)
  fix k v assume kv: "(k, v) \<in> set kvs"
  have "distinct (map fst (rev kvs))" using assms by (simp add: rev_map[symmetric])
  with kv have "map_of (rev kvs) k = Some v" by (intro map_of_is_SomeI) auto
  then show "map_of (od_update d kvs) k = Some v" by (simp add: od_update_map_of)
qed

lemma create_table_twice:
  "add_fields_from_create_table_ddl B (add_fields_from_create_table_ddl B ts ddl) ddl
   = add_fields_from_create_table_ddl B ts ddl"
  by (cases "create_table_re ddl")
     (auto simp: add_fields_from_create_table_ddl_def Let_def od_update_twice od_update_distinct)

lemma geometry_twice:
  "add_geometry_column_from_ddl B (add_geometry_column_from_ddl B ts ddl) ddl
   = add_geometry_column_from_ddl B ts ddl"
  by (cases "geometry_column_re ddl")
     (auto simp: add_geometry_column_from_ddl_def add_field_def od_set_idem)

lemma example_geometry_re:
  "geometry_column_re
     (''SELECT AddGeometryColumn('' @ [sq] @ ''roads'' @ [sq] @ '', '' @ [sq] @ ''name'' @ [sq]
        @ '', 4326, '' @ [sq] @ ''LINESTRING'' @ [sq] @ '', 2);'' @ [nl])
   = Some (''roads'', ''name'', ''4326'', ''LINESTRING'', ''2'')"
  by (simp add: re_eval str_eval)



section \<open>Conversion Driver: case of the keywords\<close>

lemma re_lit_eq:
  "re_lit p k s = (if take (length p) s = p then k (drop (length p) s) else None)"
  by (induction p k s rule: re_lit.induct) auto

lemma re_lit_no_prefix: "take (length p) s \<noteq> p \<Longrightarrow> re_lit p k s = None"
  by (simp add: re_lit_eq)

lemma re_lit_ci_eq:
  "re_lit_ci p k s =
     (if length p \<le> length s \<and> map py_lower (take (length p) s) = map py_lower p
      then k (drop (length p) s) else None)"
  by (induction p k s rule: re_lit_ci.induct) auto

lemma py_lower_c: "py_lower x = CHR ''c'' \<Longrightarrow> x \<noteq> CHR ''('' \<and> py_lower x \<noteq> CHR ''s''"
  by (auto simp: py_lower_def Let_def)

lemma re_lit_ci_append: "re_lit_ci (p @ q) k s = re_lit_ci p (re_lit_ci q k) s"
  by (induction p "re_lit_ci q k" s rule: re_lit_ci.induct) auto

lemma re_lit_ci_prefix:
  "map py_lower a = map py_lower p \<Longrightarrow> re_lit_ci p k (a @ rest) = k rest"
proof (induction p arbitrary: a)
  case Nil
  then show ?case by simp
next
  case (Cons x p)
  then show ?case by (cases a) auto
qed

text \<open>
  C10. A line whose lowercased text starts with \<^verbatim>\<open>create table\<close> is dispatched to the
  table-DDL operation; when the line itself does not start with \<^verbatim>\<open>CREATE TABLE\<close> the
  pattern of that operation does not match, the operation returns the schema unchanged,
  and the whole step of the driver leaves the records and the schema as they were. The
  geometry pattern ignores case: any casing of \<^verbatim>\<open>SELECT AddGeometryColumn(\<close> in front of
  the same rest of the line gives the same match.
\<close>

theorem lowercase_create_table_noop:
  "(str_startswith (str_lower line) ''create table'' \<and> \<not> str_startswith line ''CREATE TABLE'' \<longrightarrow>
      create_table_re line = None
    \<and> add_fields_from_create_table_ddl B ts line = ts
    \<and> convert_line B (records, ts) line = Inr (records, ts))
   \<and> (str_lower kw = str_lower ''SELECT AddGeometryColumn('' \<longrightarrow>
        geometry_column_re (kw @ rest) = geometry_column_re (''SELECT AddGeometryColumn('' @ rest))"
proof (intro conjI impI; (elim conjE)?)
  assume d: "str_startswith (str_lower line) ''create table''"
     and n: "\<not> str_startswith line ''CREATE TABLE''"
  have len: "length ''CREATE TABLE'' = 12"
    by simp
  from n have n': "take 12 line \<noteq> ''CREATE TABLE''"
    unfolding str_startswith_def len .
  have len13: "length ''CREATE TABLE '' = 13"
    by simp
  have ne13: "take 13 line \<noteq> ''CREATE TABLE ''"
  proof
    assume "take 13 line = ''CREATE TABLE ''"
    then have "take 12 (take 13 line) = take 12 ''CREATE TABLE ''"
      by (rule arg_cong)
    moreover have "take 12 (take 13 line) = take 12 line"
      by simp
    ultimately show False
      using n' by simp
  qed
  have "take (length ''CREATE TABLE '') line \<noteq> ''CREATE TABLE ''"
    unfolding len13 by (rule ne13)
  then show c: "create_table_re line = None"
    unfolding create_table_re_def by (rule re_lit_no_prefix)
  then show a: "add_fields_from_create_table_ddl B ts line = ts"
    by (simp add: add_fields_from_create_table_ddl_def)
  from d obtain x xs where l: "line = x # xs" "py_lower x = CHR ''c''"
    by (cases line) (auto simp: str_startswith_def str_lower_def)
  then have g: "\<not> str_startswith (str_lower line) ''select addgeometrycolumn''"
    using py_lower_c[of x] by (auto simp: str_startswith_def str_lower_def)
  have i: "insert_line_re line = None"
    using l py_lower_c[of x] by (simp add: insert_line_re_def)
  show "convert_line B (records, ts) line = Inr (records, ts)"
    using a g i d by (simp add: convert_line_def)
next
  assume k: "str_lower kw = str_lower ''SELECT AddGeometryColumn(''"
  have "re_lit_ci ''SELECT AddGeometryColumn('' k (kw @ rest) = k rest"
    for k :: "string \<Rightarrow> (string \<times> string \<times> string \<times> string \<times> string) option"
    using k by (intro re_lit_ci_prefix) (simp add: str_lower_def)
  moreover have "re_lit_ci ''SELECT AddGeometryColumn('' k (''SELECT AddGeometryColumn('' @ rest) = k rest"
    for k :: "string \<Rightarrow> (string \<times> string \<times> string \<times> string \<times> string) option"
    by (intro re_lit_ci_prefix) simp
  ultimately show "geometry_column_re (kw @ rest) = geometry_column_re (''SELECT AddGeometryColumn('' @ rest)"
    unfolding geometry_column_re_def re_lit_ci_append by simp
qed

theorem lowercase_create_table_noop_witness:
  "str_startswith (str_lower (''create table roads(id integer);'' @ [nl])) ''create table''
   \<and> \<not> str_startswith (''create table roads(id integer);'' @ [nl]) ''CREATE TABLE''
   \<and> convert_line sample_builtins ([], TableSchema_init) (''create table roads(id integer);'' @ [nl])
      = Inr ([], TableSchema_init)
   \<and> str_lower ''select addgeometrycolumn('' = str_lower ''SELECT AddGeometryColumn(''
   \<and> geometry_column_re
        (''select addgeometrycolumn('' @ [sq] @ ''roads'' @ [sq] @ '', '' @ [sq] @ ''name'' @ [sq]
           @ '', 4326, '' @ [sq] @ ''LINESTRING'' @ [sq] @ '', 2);'' @ [nl])
      = Some (''roads'', ''name'', ''4326'', ''LINESTRING'', ''2'')"
proof -
  have h1: "str_startswith (str_lower (''create table roads(id integer);'' @ [nl])) ''create table''"
    by (simp add: str_eval)
  have h2: "\<not> str_startswith (''create table roads(id integer);'' @ [nl]) ''CREATE TABLE''"
    by (simp add: str_eval)
  have h3: "str_lower ''select addgeometrycolumn('' = str_lower ''SELECT AddGeometryColumn(''"
    by (simp add: str_eval)
  note t = lowercase_create_table_noop[of "''create table roads(id integer);'' @ [nl]"
      sample_builtins TableSchema_init "[]" "''select addgeometrycolumn(''"
      "[sq] @ ''roads'' @ [sq] @ '', '' @ [sq] @ ''name'' @ [sq]
         @ '', 4326, '' @ [sq] @ ''LINESTRING'' @ [sq] @ '', 2);'' @ [nl]"]
  show ?thesis
    using t h1 h2 h3 example_geometry_re by simp
qed

section \<open>Row Parser: field count and schema\<close>

lemma convert_loop_append:
  "convert_loop B st (xs @ ys) =
     (case convert_loop B st xs of Inl e \<Rightarrow> Inl e | Inr st' \<Rightarrow> convert_loop B st' ys)"
  by (induction xs arbitrary: st) (auto split: sum.splits)

lemma re_lit_Some: "re_lit p k s = Some v \<Longrightarrow> take (length p) s = p"
  by (induction p k s rule: re_lit.induct) (auto split: if_splits)

lemma insert_line_paren: "insert_line_re line = Some v \<Longrightarrow> \<exists>cs. line = CHR ''('' # cs"
  by (cases line) (auto simp: insert_line_re_def split: if_splits)

lemma convert_line_insert:
  assumes "insert_line_re line = Some values"
  shows "convert_line B (records, ts) line =
     (case parse_insert_values values ts of Inl e \<Rightarrow> Inl e | Inr r \<Rightarrow> Inr (records @ [r], ts))"
proof -
  from assms obtain cs where "line = CHR ''('' # cs"
    using insert_line_paren by blast
  then have "\<not> str_startswith (str_lower line) ''create table''"
    "\<not> str_startswith (str_lower line) ''select addgeometrycolumn''"
    by (auto simp: str_startswith_def str_lower_def py_lower_def)
  with assms show ?thesis
    by (simp add: convert_line_def)
qed

lemma schema_keys_distinct:
  "convert_loop B (records, ts) ls = Inr (records', ts') \<Longrightarrow> distinct (keys ts) \<Longrightarrow> distinct (keys ts')"
proof (induction ls arbitrary: records ts)
  case Nil
  then show ?case by simp
next
  case (Cons l ls)
  from Cons.prems(1) obtain rs1 ts1 where
    st: "convert_line B (records, ts) l = Inr (rs1, ts1)" "convert_loop B (rs1, ts1) ls = Inr (records', ts')"
    by (auto split: sum.splits)
  have c: "distinct (keys (add_fields_from_create_table_ddl B t l))" if "distinct (keys t)" for t
    using that
    by (cases "create_table_re l")
       (auto simp: add_fields_from_create_table_ddl_def keys_def Let_def od_update_distinct)
  have g: "distinct (keys (add_geometry_column_from_ddl B t l))" if "distinct (keys t)" for t
    using that
    by (cases "geometry_column_re l")
       (auto simp: add_geometry_column_from_ddl_def add_field_def keys_def od_set_distinct)
  from st(1) Cons.prems(2) have "distinct (keys ts1)"
    by (auto simp: convert_line_def Let_def c g split: option.splits sum.splits if_splits)
  with st(2) show ?case
    by (rule Cons.IH)
qed

lemma example_two_columns:
  "add_fields_from_create_table_ddl B TableSchema_init
     (''CREATE TABLE t(id integer, name character varying);'' @ [nl])
   = \<lparr>ts_name = Some ''t'',
      ts_fields = [(''id'', FieldType_init py_int ''int''),
                   (''name'', FieldType_init py_str ''string'')]\<rparr>"
  by (simp add: add_fields_from_create_table_ddl_def re_eval)
     (simp add: parse_create_table_field_def str_eval SQL_TABLE_TYPE_MAPPING_def od_get_def
        TableSchema_init_def)

lemma example_two_columns_run:
  "convert_loop B ([], TableSchema_init) [''CREATE TABLE t(id integer, name character varying);'' @ [nl]]
   = Inr ([], \<lparr>ts_name = Some ''t'',
               ts_fields = [(''id'', FieldType_init py_int ''int''),
                            (''name'', FieldType_init py_str ''string'')]\<rparr>)"
  using example_two_columns[of B]
  by (simp add: convert_line_def str_eval insert_line_re_def re_dot_def re_sep_def re_end_def)

lemma example_long_reader:
  "reader_next sql_dialect [''1, b, c''] = Inr ([''1'', ''b'', ''c''], [])"
  by (simp add: reader_eval)

lemma example_short_reader:
  "reader_next sql_dialect [''1''] = Inr ([''1''], [])"
  by (simp add: reader_eval)

text \<open>
  C1, as the claim states it, fails for a row with more fields than columns: with the
  schema of \<^verbatim>\<open>CREATE TABLE t(id integer, name character varying);\<close> the row
  \<^verbatim>\<open>(1, b, c);\<close> has three fields for two columns, and the run goes on with the
  record \<^verbatim>\<open>{'id': 1, 'name': 'b', None: "['c']"}\<close>.
\<close>

theorem long_row_counterexample:
  "convert_loop sample_builtins ([], TableSchema_init)
     [''CREATE TABLE t(id integer, name character varying);'' @ [nl], ''(1, b, c);'' @ [nl]]
   = Inr ([[(Some ''id'', VInt 1), (Some ''name'', VStr ''b''),
            (None, VStr (''['' @ [sq] @ ''c'' @ [sq] @ '']''))]],
          \<lparr>ts_name = Some ''t'',
           ts_fields = [(''id'', FieldType_init py_int ''int''),
                        (''name'', FieldType_init py_str ''string'')]\<rparr>)"
proof -
  have i: "insert_line_re (''(1, b, c);'' @ [nl]) = Some ''1, b, c''"
    by (simp add: re_eval)
  have p: "parse_insert_values ''1, b, c''
             \<lparr>ts_name = Some ''t'',
              ts_fields = [(''id'', FieldType_init py_int ''int''),
                           (''name'', FieldType_init py_str ''string'')]\<rparr>
           = Inr [(Some ''id'', VInt 1), (Some ''name'', VStr ''b''),
                  (None, VStr (''['' @ [sq] @ ''c'' @ [sq] @ '']''))]"
    using parse_insert_values_row[OF example_long_reader,
        of "\<lparr>ts_name = Some ''t'',
             ts_fields = [(''id'', FieldType_init py_int ''int''),
                          (''name'', FieldType_init py_str ''string'')]\<rparr>"]
    by (simp add: field_eval conv_eval list_repr_def str_repr_def repr_char_def py_isprintable_def
        sq_def)
  show ?thesis
    using example_two_columns[of sample_builtins] i p
    by (simp add: convert_line_def str_eval insert_line_re_def re_dot_def re_sep_def re_end_def)
qed

text \<open>
  C1, amended. For every row-literal line with fewer fields than the schema has columns
  the Row Parser fails: the reader raises \<^verbatim>\<open>TypeError\<close> when it pads the row
  (\<^verbatim>\<open>StopIteration\<close> when the row has no field at all), no record is produced for the
  row, and in a run the error ends the pass over the input, so the run ends with that
  error and no file is written, whatever the converter's arguments and the module's
  names are; this covers a row that is one field short. Here the fields of a row are
  what the csv reader returns for its value text.
\<close>

theorem short_row_fails:
  assumes "reader_next sql_dialect [values] = Inr (r, rest)"
      and "length r < length (keys ts)"
  shows "parse_insert_values values ts = Inl (if r = [] then StopIteration else TypeError)
     \<and> (insert_line_re line = Some values
          \<and> convert_loop B ([], TableSchema_init) before = Inr (records, ts) \<longrightarrow>
        convert_loop B ([], TableSchema_init) (before @ line # after)
          = Inl (if r = [] then StopIteration else TypeError)
        \<and> convert B G self (before @ line # after)
          = \<lparr>written = [], raised = Some (if r = [] then StopIteration else TypeError)\<rparr>)"
proof -
  have p: "parse_insert_values values ts = Inl (if r = [] then StopIteration else TypeError)"
    using assms by (simp add: parse_insert_values_row keys_def)
  then show ?thesis
    by (auto simp: convert_loop_append convert_line_insert convert_def raise_error_def)
qed

theorem short_row_fails_witness:
  "reader_next sql_dialect [''1''] = Inr ([''1''], [])
   \<and> parse_insert_values ''1''
        \<lparr>ts_name = Some ''t'',
         ts_fields = [(''id'', FieldType_init py_int ''int''),
                      (''name'', FieldType_init py_str ''string'')]\<rparr> = Inl TypeError
   \<and> convert sample_builtins
        \<lparr>global_output_file = Some ''out.csv'', global_output_format = Some ''csv''\<rparr>
        \<lparr>input_file = ''in.sql'', output_file = ''out.csv'', output_format = ''csv''\<rparr>
        ([''CREATE TABLE t(id integer, name character varying);'' @ [nl]] @ (''(1);'' @ [nl]) # [])
      = \<lparr>written = [], raised = Some TypeError\<rparr>"
proof -
  have i: "insert_line_re (''(1);'' @ [nl]) = Some ''1''"
    by (simp add: re_eval)
  have l: "length [''1''] < length (keys \<lparr>ts_name = Some ''t'',
         ts_fields = [(''id'', FieldType_init py_int ''int''),
                      (''name'', FieldType_init py_str ''string'')]\<rparr>)"
    by (simp add: keys_def)
  show ?thesis
    using short_row_fails[OF example_short_reader l, of "''(1);'' @ [nl]" sample_builtins
        "[''CREATE TABLE t(id integer, name character varying);'' @ [nl]]" "[]" "[]"
        "\<lparr>global_output_file = Some ''out.csv'', global_output_format = Some ''csv''\<rparr>"
        "\<lparr>input_file = ''in.sql'', output_file = ''out.csv'', output_format = ''csv''\<rparr>"]
      i example_two_columns_run[of sample_builtins] example_short_reader
    by simp
qed

lemma od_update_fresh:
  "distinct (map fst d @ map fst kvs) \<Longrightarrow> od_update d kvs = d @ kvs"
proof (induction kvs arbitrary: d)
  case Nil
  then show ?case by simp
next
  case (Cons kv kvs)
  obtain k v where kv: "kv = (k, v)" by (cases kv)
  with Cons.prems have "k \<notin> fst ` set d" by auto
  then have s: "od_set k v d = d @ [(k, v)]" by (rule od_set_absent)
  have "distinct (map fst (d @ [(k, v)]) @ map fst kvs)"
    using Cons.prems kv by auto
  then have "od_update (d @ [(k, v)]) kvs = (d @ [(k, v)]) @ kvs"
    by (rule Cons.IH)
  with s kv show ?case by simp
qed

lemma convert_items_columns:
  assumes "distinct (map fst (ts_fields ts))"
  shows "set fs \<subseteq> set (ts_fields ts) \<Longrightarrow> distinct (map fst fs) \<Longrightarrow> length vs = length fs \<Longrightarrow>
         Some ` fst ` set fs \<inter> fst ` set acc = {} \<Longrightarrow>
         convert_items ts (zip (map (\<lambda>f. Some (fst f)) fs) (map RStr vs)) acc =
           (case record_of_row fs vs of Inl e \<Rightarrow> Inl e | Inr rec \<Rightarrow> Inr (acc @ rec))"
proof (induction fs arbitrary: vs acc)
  case Nil
  then show ?case by simp
next
  case (Cons f fs)
  obtain k ft where f: "f = (k, ft)" by (cases f)
  from Cons.prems(3) obtain v vs' where vs: "vs = v # vs'" by (cases vs) auto
  from Cons.prems(1) f have "(k, ft) \<in> set (ts_fields ts)" by simp
  with assms have m: "map_of (ts_fields ts) k = Some ft" by (rule map_of_is_SomeI)
  have g: "get_converter ts (Some k) (RStr v) =
           (if RStr v = null_value ft then Inr VNone else type_converter ft (RStr v))"
    by (simp add: get_converter_def m FieldType_call_def)
  show ?case
  proof (cases "if RStr v = null_value ft then Inr VNone else type_converter ft (RStr v)")
    case (Inl e)
    with g f vs show ?thesis by simp
  next
    case (Inr x)
    from Cons.prems(4) f have "Some k \<notin> fst ` set acc" by auto
    then have s: "od_set (Some k) x acc = acc @ [(Some k, x)]" by (rule od_set_absent)
    have d: "Some ` fst ` set fs \<inter> fst ` set (acc @ [(Some k, x)]) = {}"
      using Cons.prems(2,4) f by auto
    have "convert_items ts (zip (map (\<lambda>f. Some (fst f)) fs) (map RStr vs')) (acc @ [(Some k, x)]) =
           (case record_of_row fs vs' of Inl e \<Rightarrow> Inl e | Inr rec \<Rightarrow> Inr ((acc @ [(Some k, x)]) @ rec))"
      using Cons.prems vs d by (intro Cons.IH) auto
    with Inr g f vs s show ?thesis
      by (simp split: sum.splits)
  qed
qed

lemma record_of_row_keys:
  "length vs = length fs \<Longrightarrow> record_of_row fs vs = Inr rec \<Longrightarrow> map fst rec = map (\<lambda>f. Some (fst f)) fs"
  by (induction fs vs arbitrary: rec rule: record_of_row.induct) (auto split: sum.splits if_splits)

lemma record_of_row_values:
  "length vs = length fs \<Longrightarrow> record_of_row fs vs = Inr rec \<Longrightarrow>
   map (\<lambda>kx. Inr (snd kx)) rec = map (\<lambda>(f, v). FieldType_call (snd f) (RStr v)) (zip fs vs)"
  by (induction fs vs arbitrary: rec rule: record_of_row.induct)
     (auto simp: FieldType_call_def split: sum.splits if_splits)

lemma record_of_row_Cons:
  "record_of_row ((k, ft) # fs) (v # vs) =
     (case FieldType_call ft (RStr v) of
        Inl e \<Rightarrow> Inl e
      | Inr x \<Rightarrow>
          (case record_of_row fs vs of
             Inl e \<Rightarrow> Inl e
           | Inr rec \<Rightarrow> Inr ((Some k, x) # rec)))"
  by (simp add: FieldType_call_def)

lemma record_of_row_succeeds:
  "length vs = length fs \<Longrightarrow>
   (\<exists>rec. record_of_row fs vs = Inr rec)
     \<longleftrightarrow> list_all2 (\<lambda>f v. \<exists>x. FieldType_call (snd f) (RStr v) = Inr x) fs vs"
proof (induction fs arbitrary: vs)
  case Nil
  then show ?case by simp
next
  case (Cons f fs)
  obtain k ft where f: "f = (k, ft)" by (cases f)
  from Cons.prems obtain v vs' where vs: "vs = v # vs'" by (cases vs) auto
  with Cons.prems have "length vs' = length fs" by simp
  then have ih: "(\<exists>rec. record_of_row fs vs' = Inr rec)
     \<longleftrightarrow> list_all2 (\<lambda>f v. \<exists>x. FieldType_call (snd f) (RStr v) = Inr x) fs vs'"
    by (rule Cons.IH)
  show ?case
    unfolding f vs record_of_row_Cons list_all2_Cons ih[symmetric]
    by (cases "FieldType_call ft (RStr v)"; cases "record_of_row fs vs'") simp_all
qed

lemma example_bad_reader:
  "reader_next sql_dialect [''abc''] = Inr ([''abc''], [])"
  by (simp add: reader_eval)

text \<open>
  C3, as the claim states it, fails when a converter refuses its text: with the single
  column \<^verbatim>\<open>id integer\<close> the row \<^verbatim>\<open>(abc)\<close> has one field for one column, and the
  Row Parser raises \<^verbatim>\<open>ValueError\<close> instead of producing a record.
\<close>

theorem equal_count_counterexample:
  "reader_next sql_dialect [''abc''] = Inr ([''abc''], [])
   \<and> length [''abc'']
       = length (keys \<lparr>ts_name = Some ''t'', ts_fields = [(''id'', FieldType_init py_int ''int'')]\<rparr>)
   \<and> parse_insert_values ''abc''
        \<lparr>ts_name = Some ''t'', ts_fields = [(''id'', FieldType_init py_int ''int'')]\<rparr>
      = Inl ValueError"
  using parse_insert_values_row[OF example_bad_reader,
      of "\<lparr>ts_name = Some ''t'', ts_fields = [(''id'', FieldType_init py_int ''int'')]\<rparr>"]
    example_bad_reader
  by (simp add: field_eval conv_eval)

text \<open>
  C3, amended. For every row-literal line with at least one field whose field count
  equals the number of columns of the schema (an ordered dictionary, so its column names
  are distinct), the Row Parser does what the specification says column by column
  (\<open>record_of_row\<close>): it produces a record exactly when no converter raises on a raw
  text that differs from the null token; the record's keys are then the schema's column
  names in schema order, and each value is null when the raw text equals the null token
  and the converter's result otherwise. When some converter raises, the row fails with
  that error and no record is produced.
\<close>

theorem row_parser_equal_count:
  assumes "reader_next sql_dialect [values] = Inr (r, rest)" "r \<noteq> []"
          "length r = length (keys ts)" "distinct (keys ts)"
  shows "parse_insert_values values ts = record_of_row (ts_fields ts) r
     \<and> (\<forall>rec. parse_insert_values values ts = Inr rec \<longrightarrow>
          map fst rec = map Some (keys ts)
        \<and> map (\<lambda>kx. Inr (snd kx)) rec
            = map (\<lambda>(f, v). FieldType_call (snd f) (RStr v)) (zip (ts_fields ts) r))
     \<and> ((\<exists>rec. parse_insert_values values ts = Inr rec)
          \<longleftrightarrow> list_all2 (\<lambda>f v. \<exists>x. FieldType_call (snd f) (RStr v) = Inr x) (ts_fields ts) r)"
proof -
  have l: "length r = length (ts_fields ts)" using assms(3) by (simp add: keys_def)
  have d: "distinct (map fst (ts_fields ts))" using assms(4) by (simp add: keys_def)
  have z: "od_update [] (zip (map Some (keys ts)) (map RStr r)) = zip (map Some (keys ts)) (map RStr r)"
    using od_update_fresh[of "[]" "zip (map Some (keys ts)) (map RStr r)"] assms(3,4)
    by (simp add: distinct_map inj_on_def keys_def)
  have "convert_items ts (zip (map (\<lambda>f. Some (fst f)) (ts_fields ts)) (map RStr r)) [] =
          (case record_of_row (ts_fields ts) r of Inl e \<Rightarrow> Inl e | Inr rec \<Rightarrow> Inr ([] @ rec))"
    using d l by (intro convert_items_columns) auto
  then have eq: "parse_insert_values values ts = record_of_row (ts_fields ts) r"
    using assms(1,2) l z by (simp add: parse_insert_values_row keys_def comp_def split: sum.splits)
  have k: "\<forall>rec. parse_insert_values values ts = Inr rec \<longrightarrow>
          map fst rec = map Some (keys ts)
        \<and> map (\<lambda>kx. Inr (snd kx)) rec
            = map (\<lambda>(f, v). FieldType_call (snd f) (RStr v)) (zip (ts_fields ts) r)"
    using record_of_row_keys[OF l] record_of_row_values[OF l] by (simp add: eq keys_def comp_def)
  have s: "(\<exists>rec. parse_insert_values values ts = Inr rec)
          \<longleftrightarrow> list_all2 (\<lambda>f v. \<exists>x. FieldType_call (snd f) (RStr v) = Inr x) (ts_fields ts) r"
    using record_of_row_succeeds[OF l] by (simp add: eq)
  from eq k s show ?thesis by blast
qed

theorem row_parser_equal_count_witness:
  "reader_next sql_dialect [''2, '' @ [sq] @ ''null'' @ [sq] @ '', 3.0'']
     = Inr ([''2'', ''null'', ''3.0''], [])
   \<and> parse_insert_values (''2, '' @ [sq] @ ''null'' @ [sq] @ '', 3.0'')
        \<lparr>ts_name = Some ''roads'',
         ts_fields = [(''id'', FieldType_init py_int ''int''),
                      (''name'', FieldType_init py_str ''string''),
                      (''cost'', FieldType_init (py_float sample_builtins) ''double'')]\<rparr>
      = Inr [(Some ''id'', VInt 2), (Some ''name'', VNone),
             (Some ''cost'', VFloat 0x4008000000000000)]"
proof -
  have n: "[''2'', ''null'', ''3.0''] \<noteq> []"
    by simp
  have l: "length [''2'', ''null'', ''3.0'']
           = length (keys \<lparr>ts_name = Some ''roads'',
               ts_fields = [(''id'', FieldType_init py_int ''int''),
                            (''name'', FieldType_init py_str ''string''),
                            (''cost'', FieldType_init (py_float sample_builtins) ''double'')]\<rparr>)"
    by (simp add: keys_def)
  have d: "distinct (keys \<lparr>ts_name = Some ''roads'',
               ts_fields = [(''id'', FieldType_init py_int ''int''),
                            (''name'', FieldType_init py_str ''string''),
                            (''cost'', FieldType_init (py_float sample_builtins) ''double'')]\<rparr>)"
    by (simp add: keys_def)
  show ?thesis
    using row_parser_equal_count[OF example_reader n l d] example_reader
    by (simp add: FieldType_init_def conv_eval sample_builtins_def)
qed

section \<open>Geometry Decoder\<close>

lemma od_pop_alt:
  "od_pop k d =
     (if k \<in> fst ` set d then Inr (the (map_of d k), filter (\<lambda>kv. fst kv \<noteq> k) d)
      else Inl KeyError)"
proof (cases "map_of d k")
  case None
  then have "k \<notin> fst ` set d" by (simp add: map_of_eq_None_iff)
  with None show ?thesis by (simp add: od_pop_def)
next
  case (Some v)
  then have "k \<in> fst ` set d" by (metis map_of_eq_None_iff option.distinct(1))
  with Some show ?thesis by (simp add: od_pop_def)
qed

lemma example_fromhex_plain:
  "bytes_fromhex ''0101000000000000000000f03f0000000000000040'' = Inr wkb_point"
  by (simp add: hex_val_def ascii_space_def wkb_point_def)

lemma example_fromhex_srid:
  "bytes_fromhex ''0101000020e6100000000000000000f03f0000000000000040'' = Inr ewkb_point"
  by (simp add: hex_val_def ascii_space_def ewkb_point_def)

text \<open>
  C5. With \<^verbatim>\<open>strip_srid\<close> true the decoder fails when the hexadecimal text is refused,
  when the binary geometry is refused, when the encoder refuses the geometry, and also,
  with \<^verbatim>\<open>KeyError\<close>, when the decoded structure has no \<^verbatim>\<open>meta\<close> or no \<^verbatim>\<open>crs\<close>
  entry, as for a geometry without an SRID prefix; otherwise both entries are removed
  before the text encoding. So a valid well-known-binary input without an SRID prefix
  does not succeed.
\<close>

theorem geometry_decoder_outcome:
  "convert_wkb_to_wkt B True (RStr s) =
     (case bytes_fromhex s of
        Inl e \<Rightarrow> Inl e
      | Inr bs \<Rightarrow>
          (case wkb_loads B bs of
             Inl e \<Rightarrow> Inl e
           | Inr g \<Rightarrow>
               if ''meta'' \<in> fst ` set g \<and> ''crs'' \<in> fst ` set g
               then (case wkt_dumps B (filter (\<lambda>kv. fst kv \<noteq> ''meta'' \<and> fst kv \<noteq> ''crs'') g) of
                       Inl e \<Rightarrow> Inl e
                     | Inr t \<Rightarrow> Inr (VStr t))
               else Inl KeyError))"
proof -
  have f: "filter (\<lambda>kv. fst kv \<noteq> ''crs'') (filter (\<lambda>kv. fst kv \<noteq> ''meta'') g)
           = filter (\<lambda>kv. fst kv \<noteq> ''meta'' \<and> fst kv \<noteq> ''crs'') g" for g :: geom
    by (induction g) auto
  have c: "''crs'' \<in> fst ` {x \<in> set g. fst x \<noteq> ''meta''} \<longleftrightarrow> ''crs'' \<in> fst ` set g" for g :: geom
    by force
  show ?thesis
    by (simp add: convert_wkb_to_wkt_def od_pop_alt f c split: sum.splits)
qed

theorem geometry_decoder_outcome_witness:
  "convert_wkb_to_wkt sample_builtins True (RStr ''0101000000000000000000f03f0000000000000040'')
     = Inl KeyError
   \<and> convert_wkb_to_wkt sample_builtins True
        (RStr ''0101000020e6100000000000000000f03f0000000000000040'')
     = Inr (VStr ''POINT (1.0000000000000000 2.0000000000000000)'')"
  using geometry_decoder_outcome[of sample_builtins "''0101000000000000000000f03f0000000000000040''"]
    geometry_decoder_outcome[of sample_builtins
      "''0101000020e6100000000000000000f03f0000000000000040''"]
    example_fromhex_plain example_fromhex_srid
  by (simp add: sample_builtins_def point_geom_srid_def point_geom_def wkb_point_def
      ewkb_point_def)

section \<open>Schema Builder: column order\<close>

lemma re_lazy_plus_first:
  "pre \<noteq> [] \<Longrightarrow> \<forall>x\<in>set pre. p x \<Longrightarrow>
   (\<And>i. 0 < i \<Longrightarrow> i < length pre \<Longrightarrow> k (acc @ take i pre) (drop i pre @ rest) = None) \<Longrightarrow>
   re_lazy_plus p k acc (pre @ rest) = (case k (acc @ pre) rest of Some r \<Rightarrow> Some r | None \<Rightarrow> re_lazy_plus p k (acc @ pre) rest)"
proof (induction pre arbitrary: acc)
  case Nil
  then show ?case by simp
next
  case (Cons x pre)
  show ?case
  proof (cases "pre = []")
    case True
    with Cons.prems(2) show ?thesis by (simp split: option.splits)
  next
    case False
    have n: "k (acc @ [x]) (pre @ rest) = None"
      using Cons.prems(3)[of 1] False by simp
    have ih: "re_lazy_plus p k (acc @ [x]) (pre @ rest) =
        (case k ((acc @ [x]) @ pre) rest of Some r \<Rightarrow> Some r | None \<Rightarrow> re_lazy_plus p k ((acc @ [x]) @ pre) rest)"
    proof (rule Cons.IH[OF False])
      show "\<forall>x\<in>set pre. p x" using Cons.prems(2) by simp
    next
      fix i assume "0 < i" "i < length pre"
      then show "k ((acc @ [x]) @ take i pre) (drop i pre @ rest) = None"
        using Cons.prems(3)[of "Suc i"] by simp
    qed
    from Cons.prems(2) n ih show ?thesis by (simp split: option.splits)
  qed
qed

lemma re_end_None: "CHR '')'' \<in> set s \<Longrightarrow> re_opt re_sep (re_end r) s = None"
  by (cases s) (auto simp: re_end_def re_sep_def nl_def)

lemma close_None: "CHR '')'' \<in> set s \<Longrightarrow> re_lit '')'' (re_opt re_sep (re_end r)) (x # s) = None"
  by (simp add: re_end_None)

lemma close_Some:
  "stop \<in> {[], '';'', '',''} \<Longrightarrow> eol \<in> {[], [nl]} \<Longrightarrow>
   re_lit '')'' (re_opt re_sep (re_end r)) ('')'' @ stop @ eol) = Some r"
  by (auto simp: re_end_def re_sep_def nl_def)

lemma create_table_re_shape:
  assumes tn: "tname \<noteq> []" "CHR ''('' \<notin> set tname" "nl \<notin> set tname"
      and bd: "body \<noteq> []" "nl \<notin> set body"
      and tm: "stop \<in> {[], '';'', '',''}" "eol \<in> {[], [nl]}"
  shows "create_table_re (''CREATE TABLE '' @ tname @ ''('' @ body @ '')'' @ stop @ eol)
         = Some (tname, body)"
proof -
  let ?K2 = "\<lambda>text_fields. re_lit '')'' (re_opt re_sep (re_end (tname, text_fields)))"
  let ?K1 = "\<lambda>table_name. re_lit ''(''
            (re_lazy_plus re_dot (\<lambda>text_fields.
               re_lit '')'' (re_opt re_sep (re_end (table_name, text_fields)))) [])"
  have inner: "re_lazy_plus re_dot ?K2 [] (body @ '')'' @ stop @ eol) = Some (tname, body)"
  proof -
    have "re_lazy_plus re_dot ?K2 [] (body @ ('')'' @ stop @ eol)) =
          (case ?K2 ([] @ body) ('')'' @ stop @ eol) of Some r \<Rightarrow> Some r
           | None \<Rightarrow> re_lazy_plus re_dot ?K2 ([] @ body) ('')'' @ stop @ eol))"
    proof (rule re_lazy_plus_first[OF bd(1)])
      show "\<forall>x\<in>set body. re_dot x" using bd(2) by (auto simp: re_dot_def)
    next
      fix i assume i: "0 < i" "i < length body"
      then obtain x s where d: "drop i body = x # s" by (cases "drop i body") auto
      have "?K2 ([] @ take i body) (x # (s @ '')'' @ stop @ eol)) = None"
        by (rule close_None) simp
      with d show "?K2 ([] @ take i body) (drop i body @ '')'' @ stop @ eol) = None" by simp
    qed
    with close_Some[OF tm, of "(tname, body)"] show ?thesis by simp
  qed
  have outer: "re_lazy_plus re_dot ?K1 [] (tname @ ''('' @ body @ '')'' @ stop @ eol) = Some (tname, body)"
  proof -
    have "re_lazy_plus re_dot ?K1 [] (tname @ (''('' @ body @ '')'' @ stop @ eol)) =
          (case ?K1 ([] @ tname) (''('' @ body @ '')'' @ stop @ eol) of Some r \<Rightarrow> Some r
           | None \<Rightarrow> re_lazy_plus re_dot ?K1 ([] @ tname) (''('' @ body @ '')'' @ stop @ eol))"
    proof (rule re_lazy_plus_first[OF tn(1)])
      show "\<forall>x\<in>set tname. re_dot x" using tn(3) by (auto simp: re_dot_def)
    next
      fix i assume i: "0 < i" "i < length tname"
      then obtain x s where d: "drop i tname = x # s" by (cases "drop i tname") auto
      then have "x \<in> set tname" by (metis in_set_dropD list.set_intros(1))
      with tn(2) have "x \<noteq> CHR ''(''" by auto
      with d show "?K1 ([] @ take i tname) (drop i tname @ ''('' @ body @ '')'' @ stop @ eol) = None"
        by simp
    qed
    with inner show ?thesis by simp
  qed
  show ?thesis
    unfolding create_table_re_def using outer by simp
qed


lemma str_split_nonempty: "str_split sep s \<noteq> []"
  by (induction s) (auto split: list.splits)

lemma str_split_nosep: "sep \<notin> set a \<Longrightarrow> str_split sep a = [a]"
  by (induction a) auto

lemma str_split_sep: "sep \<notin> set a \<Longrightarrow> str_split sep (a @ sep # rest) = a # str_split sep rest"
  by (induction a) auto

lemma str_split_Cons:
  "c \<noteq> sep \<Longrightarrow> str_split sep (c # s) = (c # hd (str_split sep s)) # tl (str_split sep s)"
  using str_split_nonempty[of sep s] by (cases "str_split sep s") auto

lemma str_split_join:
  "ps \<noteq> [] \<Longrightarrow> \<forall>p\<in>set ps. CHR '','' \<notin> set p \<Longrightarrow>
   str_split CHR '','' (str_join '', '' ps) = hd ps # map ((#) CHR '' '') (tl ps)"
proof (induction "'', ''" ps rule: str_join.induct)
  case 1
  then show ?case by simp
next
  case (2 x)
  then show ?case by (simp add: str_split_nosep)
next
  case (3 x y ys)
  have "str_split CHR '','' (str_join '', '' (y # ys)) = y # map ((#) CHR '' '') ys"
    using 3 by simp
  moreover have "str_join '', '' (x # y # ys) = x @ CHR '','' # (CHR '' '' # str_join '', '' (y # ys))"
    by simp
  ultimately show ?case
    using 3(3) by (simp only: str_split_sep str_split_Cons) (simp add: str_split_sep str_split_Cons)
qed

lemma str_join_set: "set (str_join sep ps) \<subseteq> set sep \<union> (\<Union>p\<in>set ps. set p)"
  by (induction sep ps rule: str_join.induct) auto

lemma str_join_nonempty: "ps \<noteq> [] \<Longrightarrow> hd ps \<noteq> [] \<Longrightarrow> str_join sep ps \<noteq> []"
  by (induction sep ps rule: str_join.induct) auto

lemma str_strip_padded:
  assumes "\<forall>x\<in>set pad. py_isspace x" "w \<noteq> []" "\<not> py_isspace (hd w)" "\<not> py_isspace (last w)"
  shows "str_strip (pad @ w) = w"
proof -
  obtain x xs where w: "w = x # xs"
    using assms(2) by (cases w) auto
  have a: "dropWhile py_isspace (pad @ w) = w"
    using assms(1,3) w by (simp add: dropWhile_append2)
  obtain ys y where r: "w = ys @ [y]"
    using assms(2) by (cases w rule: rev_cases) auto
  with assms(4) have b: "dropWhile py_isspace (rev w) = rev w"
    by simp
  show ?thesis
    by (simp add: str_strip_def a b)
qed

lemma str_partition_space:
  assumes "CHR '' '' \<notin> set c"
  shows "str_partition CHR '' '' (c @ CHR '' '' # t) = (c, '' '', t)"
proof -
  have n: "x \<noteq> CHR '' ''" if "x \<in> set c" for x
    using that assms by auto
  have a: "takeWhile (\<lambda>x. x \<noteq> CHR '' '') (c @ CHR '' '' # t) = c"
    using n by (simp add: takeWhile_append2)
  have b: "dropWhile (\<lambda>x. x \<noteq> CHR '' '') (c @ CHR '' '' # t) = CHR '' '' # t"
    using n by (simp add: dropWhile_append2)
  show ?thesis
    by (simp add: str_partition_def Let_def a b)
qed

lemma parse_create_table_field_shape:
  assumes "\<forall>x\<in>set pad. py_isspace x" "c \<noteq> []" "\<forall>x\<in>set c. \<not> py_isspace x"
          "t \<noteq> []" "\<not> py_isspace (last t)"
  shows "parse_create_table_field B (pad @ c @ '' '' @ t)
         = (c, od_get (SQL_TABLE_TYPE_MAPPING B) t (FieldType_init py_str ''string''))"
proof -
  have sp: "py_isspace CHR '' ''" by (simp add: py_isspace_def)
  have h: "\<not> py_isspace (hd (c @ '' '' @ t))" using assms(2,3) by (cases c) auto
  have l: "\<not> py_isspace (last (c @ '' '' @ t))" using assms(4,5) by simp
  have s: "str_strip (pad @ (c @ '' '' @ t)) = c @ '' '' @ t"
    using assms(1) h l by (intro str_strip_padded) auto
  have n: "CHR '' '' \<notin> set c" using assms(3) sp by auto
  show ?thesis
    using s str_partition_space[OF n, of t] by (simp add: parse_create_table_field_def)
qed

text \<open>
  C7, as the claim states it, fails when a column name and its type are separated by
  more than one space. In \<^verbatim>\<open>CREATE TABLE t(id  integer);\<close> the split of the piece at its
  first whitespace run gives the name \<^verbatim>\<open>id\<close> and the type text \<^verbatim>\<open>integer\<close>, which the
  Type Registry resolves to the integer parser with type \<^verbatim>\<open>int\<close>. The Schema Builder
  splits at the first space character: the type text is \<^verbatim>\<open>integer\<close> with a space before
  it, not a registered name, and the column gets the string pass-through with type
  \<^verbatim>\<open>string\<close>, which accepts the text \<^verbatim>\<open>x1\<close> where the integer parser raises.
\<close>

theorem two_spaces_counterexample:
  "add_fields_from_create_table_ddl sample_builtins TableSchema_init
     (''CREATE TABLE t(id  integer);'' @ [nl])
   = \<lparr>ts_name = Some ''t'',
      ts_fields = [(''id'', \<lparr>type_converter = py_str, avro_data_type = ''string'',
                              null_value = RStr ''null''\<rparr>)]\<rparr>
   \<and> map (spec_create_table_field sample_builtins) (str_split CHR '','' ''id  integer'')
     = [(''id'', \<lparr>type_converter = py_int, avro_data_type = ''int'', null_value = RStr ''null''\<rparr>)]
   \<and> py_str (RStr ''x1'') = Inr (VStr ''x1'')
   \<and> py_int (RStr ''x1'') = Inl ValueError"
proof -
  have c: "add_fields_from_create_table_ddl sample_builtins TableSchema_init
     (''CREATE TABLE t(id  integer);'' @ [nl])
   = \<lparr>ts_name = Some ''t'',
      ts_fields = [(''id'', \<lparr>type_converter = py_str, avro_data_type = ''string'',
                              null_value = RStr ''null''\<rparr>)]\<rparr>"
    by (simp add: add_fields_from_create_table_ddl_def re_eval)
       (simp add: parse_create_table_field_def str_eval SQL_TABLE_TYPE_MAPPING_def od_get_def
          TableSchema_init_def FieldType_init_def)
  have s: "map (spec_create_table_field sample_builtins) (str_split CHR '','' ''id  integer'')
     = [(''id'', \<lparr>type_converter = py_int, avro_data_type = ''int'', null_value = RStr ''null''\<rparr>)]"
    by (simp add: spec_create_table_field_def split_first_whitespace_run_def str_eval
        SQL_TABLE_TYPE_MAPPING_def od_get_def FieldType_init_def)
  have v: "py_str (RStr ''x1'') = Inr (VStr ''x1'')" "py_int (RStr ''x1'') = Inl ValueError"
    by (simp_all add: conv_eval)
  from c s v show ?thesis by blast
qed

text \<open>
  C7, amended. A line \<^verbatim>\<open>CREATE TABLE <name>(<col1> <type1>, <col2> <type2>, ...)\<close>, ended
  by nothing, \<^verbatim>\<open>;\<close> or \<^verbatim>\<open>,\<close> and an optional newline, is taken with: a table name that
  is not empty and has no \<^verbatim>\<open>(\<close> and no newline; at least one column; distinct column
  names, each not empty and free of whitespace and commas; type texts that are not empty,
  do not end in whitespace and have no comma and no newline (they may have spaces and
  parentheses); one space between a name and its type and \<^verbatim>\<open>, \<close> between columns. Fed
  to the Schema Builder with the empty schema, such a line gives the table name and the
  columns in declared order, each with the FieldType that the Type Registry returns for
  its type text: the body is split at the commas and each piece, stripped of surrounding
  whitespace, is split at its first space character into the name and the type text
  (everything after that space, so a type text may itself begin with a space).
\<close>

theorem create_table_column_order:
  assumes tn: "tname \<noteq> []" "CHR ''('' \<notin> set tname" "nl \<notin> set tname"
      and cols: "cols \<noteq> []" "distinct (map fst cols)"
      and names: "\<forall>(c, t)\<in>set cols. c \<noteq> [] \<and> (\<forall>x\<in>set c. \<not> py_isspace x \<and> x \<noteq> CHR '','')"
      and types: "\<forall>(c, t)\<in>set cols. t \<noteq> [] \<and> \<not> py_isspace (last t) \<and> CHR '','' \<notin> set t \<and> nl \<notin> set t"
      and tm: "stop \<in> {[], '';'', '',''}" "eol \<in> {[], [nl]}"
  shows "add_fields_from_create_table_ddl B TableSchema_init
           (''CREATE TABLE '' @ tname @ ''(''
              @ str_join '', '' (map (\<lambda>(c, t). c @ '' '' @ t) cols) @ '')'' @ stop @ eol)
         = \<lparr>ts_name = Some tname,
            ts_fields = map (\<lambda>(c, t). (c, od_get (SQL_TABLE_TYPE_MAPPING B) t
                                              (FieldType_init py_str ''string''))) cols\<rparr>"
proof -
  let ?ps = "map (\<lambda>(c, t). c @ '' '' @ t) cols"
  let ?body = "str_join '', '' ?ps"
  let ?reg = "\<lambda>t. od_get (SQL_TABLE_TYPE_MAPPING B) t (FieldType_init py_str ''string'')"
  obtain c0 t0 cols' where c0: "cols = (c0, t0) # cols'"
    using cols(1) by (cases cols) auto
  have nlsp: "py_isspace nl" by (simp add: py_isspace_def nl_def)
  have b1: "?body \<noteq> []"
    using c0 by (intro str_join_nonempty) auto
  have b2: "nl \<notin> set ?body"
  proof
    assume "nl \<in> set ?body"
    then have "nl \<in> set '', '' \<union> (\<Union>p\<in>set ?ps. set p)"
      using str_join_set[of "'', ''" ?ps] by blast
    then obtain c t where "(c, t) \<in> set cols" "nl \<in> set (c @ '' '' @ t)"
      by (auto simp: nl_def)
    with names types nlsp show False by (auto simp: nl_def)
  qed
  have m: "create_table_re (''CREATE TABLE '' @ tname @ ''('' @ ?body @ '')'' @ stop @ eol)
           = Some (tname, ?body)"
    using tn b1 b2 tm by (rule create_table_re_shape)
  have nc: "\<forall>p\<in>set ?ps. CHR '','' \<notin> set p"
    using names types by auto
  have sp: "str_split CHR '','' ?body = hd ?ps # map ((#) CHR '' '') (tl ?ps)"
    using cols(1) nc by (intro str_split_join) auto
  have f1: "parse_create_table_field B (c @ '' '' @ t) = (c, ?reg t)" if "(c, t) \<in> set cols" for c t
    using parse_create_table_field_shape[of "[]" c t B] that names types by auto
  have f2: "parse_create_table_field B (CHR '' '' # c @ '' '' @ t) = (c, ?reg t)" if "(c, t) \<in> set cols" for c t
    using parse_create_table_field_shape[of "'' ''" c t B] that names types
    by (auto simp: py_isspace_def)
  have pf: "map (parse_create_table_field B) (hd ?ps # map ((#) CHR '' '') (tl ?ps))
            = map (\<lambda>(c, t). (c, ?reg t)) cols"
    using f1 f2 c0 by (auto simp: comp_def)
  have d: "distinct (map fst (map (\<lambda>(c, t). (c, ?reg t)) cols))"
    using cols(2) by (simp add: comp_def case_prod_unfold)
  have u: "od_update [] (map (\<lambda>(c, t). (c, ?reg t)) cols) = map (\<lambda>(c, t). (c, ?reg t)) cols"
    using od_update_fresh[of "[]" "map (\<lambda>(c, t). (c, ?reg t)) cols"] d by simp
  show ?thesis
    unfolding add_fields_from_create_table_ddl_def m option.case prod.case Let_def sp pf u
      TableSchema_init_def
    using u by simp
qed

theorem create_table_column_order_witness:
  "add_fields_from_create_table_ddl sample_builtins TableSchema_init
     (''CREATE TABLE '' @ ''roads'' @ ''(''
        @ str_join '', '' (map (\<lambda>(c, t). c @ '' '' @ t)
            [(''id'', ''integer''), (''name'', ''character varying''),
             (''cost'', ''double precision''), (''geom'', ''geometry(LineString)'')])
        @ '')'' @ '';'' @ [nl])
   = \<lparr>ts_name = Some ''roads'',
      ts_fields =
        [(''id'', \<lparr>type_converter = py_int, avro_data_type = ''int'', null_value = RStr ''null''\<rparr>),
         (''name'', \<lparr>type_converter = py_str, avro_data_type = ''string'', null_value = RStr ''null''\<rparr>),
         (''cost'', \<lparr>type_converter = py_float sample_builtins, avro_data_type = ''double'',
                      null_value = RStr ''null''\<rparr>),
         (''geom'', \<lparr>type_converter = py_str, avro_data_type = ''string'', null_value = RStr ''null''\<rparr>)]\<rparr>"
  using create_table_column_order[of "''roads''"
      "[(''id'', ''integer''), (''name'', ''character varying''),
        (''cost'', ''double precision''), (''geom'', ''geometry(LineString)'')]"
      "'';''" "[nl]" sample_builtins]
  by (simp add: py_isspace_def nl_def od_get_def SQL_TABLE_TYPE_MAPPING_def FieldType_init_def)

section \<open>Row Parser: quoted fields\<close>

lemmas step_eval = parse_process_char_def start_field_def parse_add_char_def parse_save_field_def
  sql_dialect_def is_crlf_def sq_def

lemma skip_spaces:
  "process_chars sql_dialect \<lparr>rd_state = START_FIELD, rd_field = [], rd_row = r\<rparr>
     (replicate n CHR '' '' @ rest)
   = process_chars sql_dialect \<lparr>rd_state = START_FIELD, rd_field = [], rd_row = r\<rparr> rest"
  by (induction n) (simp_all add: step_eval)

lemma double_quotes_Cons:
  "double_quotes (c # q) = (if c = sq then [sq, sq] else [c]) @ double_quotes q"
  by (simp add: double_quotes_def)

lemma quoted_body:
  "length f + length q \<le> field_limit \<Longrightarrow>
   process_chars sql_dialect \<lparr>rd_state = IN_QUOTED_FIELD, rd_field = f, rd_row = r\<rparr>
     (double_quotes q @ rest)
   = process_chars sql_dialect \<lparr>rd_state = IN_QUOTED_FIELD, rd_field = f @ q, rd_row = r\<rparr> rest"
proof (induction q arbitrary: f)
  case Nil
  then show ?case by (simp add: double_quotes_def)
next
  case (Cons c q)
  from Cons.prems have ih: "process_chars sql_dialect
        \<lparr>rd_state = IN_QUOTED_FIELD, rd_field = f @ [c], rd_row = r\<rparr> (double_quotes q @ rest)
      = process_chars sql_dialect
        \<lparr>rd_state = IN_QUOTED_FIELD, rd_field = (f @ [c]) @ q, rd_row = r\<rparr> rest"
    by (intro Cons.IH) auto
  from Cons.prems have lt: "length f < field_limit"
    by simp
  show ?case
  proof (cases "c = sq")
    case True
    with ih lt show ?thesis
      by (simp add: double_quotes_Cons parse_process_char_def parse_add_char_def sql_dialect_def)
  next
    case False
    with ih lt show ?thesis
      by (simp add: double_quotes_Cons parse_process_char_def parse_add_char_def sql_dialect_def)
  qed
qed

lemma bare_body:
  "CHR '','' \<notin> set b \<Longrightarrow> CHR 0x0A \<notin> set b \<Longrightarrow> CHR 0x0D \<notin> set b \<Longrightarrow>
   length f + length b \<le> field_limit \<Longrightarrow>
   process_chars sql_dialect \<lparr>rd_state = IN_FIELD, rd_field = f, rd_row = r\<rparr> (b @ rest)
   = process_chars sql_dialect \<lparr>rd_state = IN_FIELD, rd_field = f @ b, rd_row = r\<rparr> rest"
proof (induction b arbitrary: f)
  case Nil
  then show ?case by simp
next
  case (Cons c b)
  from Cons.prems have "process_chars sql_dialect
        \<lparr>rd_state = IN_FIELD, rd_field = f @ [c], rd_row = r\<rparr> (b @ rest)
      = process_chars sql_dialect
        \<lparr>rd_state = IN_FIELD, rd_field = (f @ [c]) @ b, rd_row = r\<rparr> rest"
    by (intro Cons.IH) auto
  with Cons.prems show ?case
    by (auto simp: parse_process_char_def parse_add_char_def sql_dialect_def is_crlf_def)
qed

lemma field_limit_pos: "0 < field_limit"
  by (simp add: field_limit_def)

lemma field_then_comma:
  assumes "wf_literal l"
  shows "process_chars sql_dialect \<lparr>rd_state = START_FIELD, rd_field = [], rd_row = r\<rparr>
           ((replicate n CHR '' '' @ literal_text l) @ CHR '','' # rest)
         = process_chars sql_dialect
             \<lparr>rd_state = START_FIELD, rd_field = [], rd_row = r @ [literal_value l]\<rparr> rest"
proof (cases l)
  case (Quoted q)
  with assms have q: "length [] + length q \<le> field_limit" by auto
  show ?thesis
    using quoted_body[OF q, of r "sq # CHR '','' # rest"] field_limit_pos
    by (simp add: Quoted skip_spaces) (simp add: step_eval)
next
  case (Bare b)
  show ?thesis
  proof (cases b)
    case Nil
    with Bare show ?thesis
      by (simp add: skip_spaces) (simp add: step_eval)
  next
    case (Cons c cs)
    with assms Bare have b: "CHR '','' \<notin> set cs" "CHR 0x0A \<notin> set cs" "CHR 0x0D \<notin> set cs"
      "length [c] + length cs \<le> field_limit"
      and c: "c \<noteq> CHR '' ''" "c \<noteq> sq" "c \<noteq> CHR '',''" "c \<noteq> CHR 0x0A" "c \<noteq> CHR 0x0D"
      by auto
    show ?thesis
      using bare_body[OF b, of r "CHR '','' # rest"] c field_limit_pos
      by (simp add: Bare Cons skip_spaces) (simp add: step_eval)
  qed
qed

lemma field_then_end:
  assumes "wf_literal l"
  shows "process_line sql_dialect \<lparr>rd_state = START_FIELD, rd_field = [], rd_row = r\<rparr>
           (replicate n CHR '' '' @ literal_text l)
         = Inr \<lparr>rd_state = START_RECORD, rd_field = [], rd_row = r @ [literal_value l]\<rparr>"
proof (cases l)
  case (Quoted q)
  with assms have q: "length [] + length q \<le> field_limit" by auto
  show ?thesis
    using quoted_body[OF q, of r "[sq]"] field_limit_pos
    by (simp add: Quoted skip_spaces process_line_def) (simp add: step_eval)
next
  case (Bare b)
  show ?thesis
  proof (cases b)
    case Nil
    with Bare show ?thesis
      using skip_spaces[of r n "[]"]
      by (simp add: process_line_def) (simp add: step_eval)
  next
    case (Cons c cs)
    with assms Bare have b: "CHR '','' \<notin> set cs" "CHR 0x0A \<notin> set cs" "CHR 0x0D \<notin> set cs"
      "length [c] + length cs \<le> field_limit"
      and c: "c \<noteq> CHR '' ''" "c \<noteq> sq" "c \<noteq> CHR '',''" "c \<noteq> CHR 0x0A" "c \<noteq> CHR 0x0D"
      by auto
    show ?thesis
      using bare_body[OF b, of r "[]"] c field_limit_pos
      by (simp add: Bare Cons skip_spaces process_line_def) (simp add: step_eval)
  qed
qed


lemma process_line_prefix:
  "process_chars d st (a @ rest) = process_chars d st' rest \<Longrightarrow>
   process_line d st (a @ rest) = process_line d st' rest"
  by (simp add: process_line_def)

lemma fields_from_start_field:
  "items \<noteq> [] \<Longrightarrow> \<forall>(n, l)\<in>set items. wf_literal l \<Longrightarrow>
   process_line sql_dialect \<lparr>rd_state = START_FIELD, rd_field = [], rd_row = r\<rparr> (row_text items)
   = Inr \<lparr>rd_state = START_RECORD, rd_field = [], rd_row = r @ map (\<lambda>(n, l). literal_value l) items\<rparr>"
proof (induction items arbitrary: r)
  case Nil
  then show ?case by simp
next
  case (Cons x items)
  obtain n l where x: "x = (n, l)" by (cases x)
  with Cons.prems have wf: "wf_literal l" by simp
  show ?case
  proof (cases items)
    case Nil
    with x wf show ?thesis
      by (simp add: row_text_def field_then_end)
  next
    case (Cons y ys)
    have t: "row_text (x # items)
             = (replicate n CHR '' '' @ literal_text l) @ CHR '','' # row_text items"
      by (simp add: row_text_def x Cons)
    have "process_line sql_dialect \<lparr>rd_state = START_FIELD, rd_field = [], rd_row = r\<rparr>
            ((replicate n CHR '' '' @ literal_text l) @ CHR '','' # row_text items)
          = process_line sql_dialect
              \<lparr>rd_state = START_FIELD, rd_field = [], rd_row = r @ [literal_value l]\<rparr>
              (row_text items)"
      using field_then_comma[OF wf, of r n "row_text items"]
      by (simp add: process_line_def)
    also have "\<dots> = Inr \<lparr>rd_state = START_RECORD, rd_field = [],
                       rd_row = (r @ [literal_value l]) @ map (\<lambda>(n, l). literal_value l) items\<rparr>"
      using Cons.prems(2) Cons by (intro Cons.IH) auto
    finally show ?thesis
      unfolding t by (simp add: x)
  qed
qed

lemma start_record_as_field:
  "s \<noteq> [] \<Longrightarrow> hd s \<noteq> CHR 0x0A \<Longrightarrow> hd s \<noteq> CHR 0x0D \<Longrightarrow>
   process_line sql_dialect parse_reset s
   = process_line sql_dialect \<lparr>rd_state = START_FIELD, rd_field = [], rd_row = []\<rparr> s"
  by (cases s)
     (simp_all add: process_line_def parse_reset_def step_eval)

lemma row_text_head:
  assumes "items \<noteq> []" "\<forall>(n, l)\<in>set items. wf_literal l" "row_text items \<noteq> []"
  shows "hd (row_text items) \<noteq> CHR 0x0A \<and> hd (row_text items) \<noteq> CHR 0x0D"
proof -
  obtain n l rest where i: "items = (n, l) # rest"
    using assms(1) by (cases items) auto
  with assms(2) have wf: "wf_literal l" by simp
  define w where "w = replicate n CHR '' '' @ literal_text l"
  have h: "w \<noteq> [] \<Longrightarrow> hd w \<noteq> CHR 0x0A \<and> hd w \<noteq> CHR 0x0D"
  proof (cases n)
    case 0
    assume "w \<noteq> []"
    with 0 wf show ?thesis
      by (cases l) (auto simp: w_def sq_def split: list.splits)
  next
    case (Suc m)
    then show ?thesis by (simp add: w_def)
  qed
  show ?thesis
  proof (cases rest)
    case Nil
    with i assms(3) h show ?thesis by (simp add: row_text_def w_def)
  next
    case (Cons y ys)
    have "row_text items = w @ CHR '','' # row_text rest"
      by (simp add: row_text_def i Cons w_def)
    with h show ?thesis by (cases w) auto
  qed
qed

lemma parse_insert_values_equal_count:
  assumes "reader_next sql_dialect [values] = Inr (r, rest)" "r \<noteq> []"
          "length r = length (keys ts)" "distinct (keys ts)"
  shows "parse_insert_values values ts = record_of_row (ts_fields ts) r"
proof -
  have l: "length r = length (ts_fields ts)" using assms(3) by (simp add: keys_def)
  have d: "distinct (map fst (ts_fields ts))" using assms(4) by (simp add: keys_def)
  have z: "od_update [] (zip (map Some (keys ts)) (map RStr r)) = zip (map Some (keys ts)) (map RStr r)"
    using od_update_fresh[of "[]" "zip (map Some (keys ts)) (map RStr r)"] assms(3,4)
    by (simp add: distinct_map inj_on_def keys_def)
  have "convert_items ts (zip (map (\<lambda>f. Some (fst f)) (ts_fields ts)) (map RStr r)) [] =
          (case record_of_row (ts_fields ts) r of Inl e \<Rightarrow> Inl e | Inr rec \<Rightarrow> Inr ([] @ rec))"
    using d l by (intro convert_items_columns) auto
  then show ?thesis
    using assms(1,2) l z by (simp add: parse_insert_values_row keys_def comp_def split: sum.splits)
qed

text \<open>
  The limit on the length of a field is the reader's: a quoted literal with a comma
  after 131072 other characters is refused with the csv module's error.
\<close>

lemma double_quotes_replicate:
  "c \<noteq> sq \<Longrightarrow> double_quotes (replicate n c) = replicate n c"
  by (induction n) (simp_all add: double_quotes_def)

lemma long_quoted_field_refused:
  "reader_next sql_dialect [[sq] @ replicate field_limit CHR ''a'' @ '',b'' @ [sq]] = Inl CsvError"
proof -
  have a: "CHR ''a'' \<noteq> sq" by (simp add: sq_def)
  have b: "process_chars sql_dialect \<lparr>rd_state = IN_QUOTED_FIELD, rd_field = [], rd_row = []\<rparr>
             (double_quotes (replicate field_limit CHR ''a'') @ '',b'' @ [sq])
           = process_chars sql_dialect
               \<lparr>rd_state = IN_QUOTED_FIELD, rd_field = [] @ replicate field_limit CHR ''a'', rd_row = []\<rparr>
               ('',b'' @ [sq])"
    by (rule quoted_body) simp
  have c: "process_chars sql_dialect
               \<lparr>rd_state = IN_QUOTED_FIELD, rd_field = replicate field_limit CHR ''a'', rd_row = []\<rparr>
               ('',b'' @ [sq]) = Inl CsvError"
    by (simp add: parse_process_char_def parse_add_char_def sql_dialect_def sq_def)
  have "process_chars sql_dialect parse_reset ([sq] @ replicate field_limit CHR ''a'' @ '',b'' @ [sq])
        = Inl CsvError"
    using b c by (simp add: double_quotes_replicate[OF a] parse_reset_def parse_process_char_def
        start_field_def sql_dialect_def is_crlf_def) (simp add: sq_def)
  then show ?thesis
    by (simp add: reader_next_def process_line_def)
qed

text \<open>
  C8, as the claim states it, fails when the whitespace after a delimiter is not a
  space: in the value text \<^verbatim>\<open>1,<TAB>'a, b'\<close> the tab is not trimmed, it starts an
  unquoted field in which the quote is an ordinary character, and the literal is split at
  its comma into the fields \<^verbatim>\<open><TAB>'a\<close> and \<^verbatim>\<open>b'\<close>.
\<close>

theorem quoted_field_after_tab_counterexample:
  "reader_next sql_dialect [''1,'' @ [CHR 0x09, sq] @ ''a, b'' @ [sq]]
   = Inr ([''1'', [CHR 0x09, sq, CHR ''a''], ''b'' @ [sq]], [])"
  by (simp add: reader_next_def process_line_def parse_reset_def field_limit_def step_eval)

text \<open>
  C8, amended. For every row-literal value text and every schema, a literal field
  enclosed in single quotes that contains a comma is parsed as one raw field value, not
  split at the internal comma; the quote character is \<^verbatim>\<open>'\<close> and the leading spaces
  after each delimiter are trimmed. The value text is a sequence of fields joined by
  commas, each preceded by any number of space characters; a field is a single-quoted
  literal holding any characters (a quote inside it written twice; at most 131072 of
  them, the csv module's field size limit) or a bare text (no comma, no line break, not
  starting with a space or a quote, within the same limit). The reader returns exactly
  the contents of the fields in order; the Row Parser pairs them with the columns of the
  schema by position, as it does with the fields of any row; and when there are as many
  fields as columns it gives the record of the specification for these contents, each
  column's converter applied to the whole literal.
\<close>

theorem quoted_fields_not_split:
  assumes "items \<noteq> []" "\<forall>(n, l)\<in>set items. wf_literal l" "row_text items \<noteq> []"
  shows "reader_next sql_dialect [row_text items] = Inr (row_values items, [])
     \<and> parse_insert_values (row_text items) ts =
         (if length (keys ts) < length items
          then convert_items ts
                 (od_set None (RList (drop (length (keys ts)) (row_values items)))
                    (od_update [] (zip (map Some (keys ts)) (map RStr (row_values items))))) []
          else if length items < length (keys ts) then Inl TypeError
          else convert_items ts
                 (od_update [] (zip (map Some (keys ts)) (map RStr (row_values items)))) [])
     \<and> (length items = length (keys ts) \<and> distinct (keys ts) \<longrightarrow>
          parse_insert_values (row_text items) ts = record_of_row (ts_fields ts) (row_values items))"
proof -
  have "process_line sql_dialect parse_reset (row_text items)
        = Inr \<lparr>rd_state = START_RECORD, rd_field = [],
               rd_row = [] @ map (\<lambda>(n, l). literal_value l) items\<rparr>"
    using start_record_as_field[OF assms(3)] row_text_head[OF assms]
      fields_from_start_field[OF assms(1,2), of "[]"]
    by simp
  then have r: "reader_next sql_dialect [row_text items] = Inr (row_values items, [])"
    by (simp add: reader_next_def row_values_def)
  have n: "row_values items \<noteq> []" "length (row_values items) = length items"
    using assms(1) by (simp_all add: row_values_def)
  have p: "parse_insert_values (row_text items) ts =
         (if length (keys ts) < length items
          then convert_items ts
                 (od_set None (RList (drop (length (keys ts)) (row_values items)))
                    (od_update [] (zip (map Some (keys ts)) (map RStr (row_values items))))) []
          else if length items < length (keys ts) then Inl TypeError
          else convert_items ts
                 (od_update [] (zip (map Some (keys ts)) (map RStr (row_values items)))) [])"
    using parse_insert_values_row[OF r, of ts] n by (simp add: keys_def)
  have e: "parse_insert_values (row_text items) ts = record_of_row (ts_fields ts) (row_values items)"
    if "length items = length (keys ts)" "distinct (keys ts)"
    using parse_insert_values_equal_count[OF r n(1)] that n(2) by simp
  from r p e show ?thesis by blast
qed

theorem quoted_fields_not_split_witness:
  "reader_next sql_dialect
     [''1, '' @ [sq] @ ''St John'' @ [sq, sq] @ ''s Rd, North'' @ [sq] @ '',  12.5'']
   = Inr ([''1'', ''St John'' @ [sq] @ ''s Rd, North'', ''12.5''], [])
   \<and> parse_insert_values
        (''1, '' @ [sq] @ ''St John'' @ [sq, sq] @ ''s Rd, North'' @ [sq] @ '',  12.5'')
        \<lparr>ts_name = Some ''roads'',
         ts_fields =
           [(''id'', \<lparr>type_converter = py_int, avro_data_type = ''int'', null_value = RStr ''null''\<rparr>),
            (''name'', \<lparr>type_converter = py_str, avro_data_type = ''string'', null_value = RStr ''null''\<rparr>),
            (''cost'', \<lparr>type_converter = py_float sample_builtins, avro_data_type = ''double'',
                         null_value = RStr ''null''\<rparr>)]\<rparr>
      = Inr [(Some ''id'', VInt 1), (Some ''name'', VStr (''St John'' @ [sq] @ ''s Rd, North'')),
             (Some ''cost'', VFloat 0x4029000000000000)]"
  using quoted_fields_not_split[of
      "[(0, Bare ''1''), (1, Quoted (''St John'' @ [sq] @ ''s Rd, North'')), (2, Bare ''12.5'')]"
      "\<lparr>ts_name = Some ''roads'',
         ts_fields =
           [(''id'', \<lparr>type_converter = py_int, avro_data_type = ''int'', null_value = RStr ''null''\<rparr>),
            (''name'', \<lparr>type_converter = py_str, avro_data_type = ''string'', null_value = RStr ''null''\<rparr>),
            (''cost'', \<lparr>type_converter = py_float sample_builtins, avro_data_type = ''double'',
                         null_value = RStr ''null''\<rparr>)]\<rparr>"]
  by (simp add: row_text_def row_values_def double_quotes_def sq_def field_limit_def numeral_2_eq_2
      field_eval conv_eval sample_builtins_def)

end
